theory Spec2Isabelle
  imports Complex_Main "HOL-Library.AList" "HOL-Library.Log_Nat"
begin

section \<open>JavaScript values\<close>

text \<open>
  The route handlers of \<^verbatim>\<open>src/routes/trip.routes.js\<close> work on plain JavaScript
  values: request bodies, Mongoose documents and query parameters.
\<close>

subsection \<open>Numbers\<close>

text \<open>
  A number is an IEEE 754 double: a finite value, \<^verbatim>\<open>NaN\<close> or one of the two
  infinities. A finite double is written as the rational it denotes; the results of
  \<^verbatim>\<open>Number\<close> and \<^verbatim>\<open>+\<close> are rounded to the nearest double, ties to the even
  significand, and overflow to an infinity. The model does not tell \<^verbatim>\<open>-0\<close> from
  \<^verbatim>\<open>0\<close>.
\<close>

datatype jsnum = Fin rat | NaN | PInf | NInf

definition pow2 :: "int \<Rightarrow> rat" where
  "pow2 e = (if 0 \<le> e then 2 ^ nat e else 1 / 2 ^ nat (- e))"

text \<open>
  The binade of the positive ratio \<open>a / b\<close>: the exponent \<open>e\<close> with
  \<open>2^e \<le> a / b < 2^(e + 1)\<close>. The difference \<open>k\<close> of the bit lengths is this
  exponent or one more.
\<close>

definition binadeFrom :: "int \<Rightarrow> int \<Rightarrow> int \<Rightarrow> int" where
  "binadeFrom a b k = (if b * 2 ^ nat k \<le> a * 2 ^ nat (- k) then k else k - 1)"

definition binade :: "int \<Rightarrow> int \<Rightarrow> int" where
  "binade a b = binadeFrom a b (int (floorlog 2 (nat a)) - int (floorlog 2 (nat b)))"

text \<open>The quotient \<open>num / den\<close> rounded to the nearest integer, ties to the even one.\<close>

definition roundQuot :: "int \<Rightarrow> int \<Rightarrow> int" where
  "roundQuot num den =
     (if 2 * (num mod den) < den then num div den
      else if den < 2 * (num mod den) then num div den + 1
      else if even (num div den) then num div den
      else num div den + 1)"

text \<open>
  The significand of \<open>a / b\<close> at the exponent \<open>e\<close>, in units of \<open>2^(e - 52)\<close>, and
  the double it gives; a value of \<open>2^1024\<close> or more is an infinity.
\<close>

definition significand :: "int \<Rightarrow> int \<Rightarrow> int \<Rightarrow> int" where
  "significand a b e = roundQuot (a * 2 ^ nat (52 - e)) (b * 2 ^ nat (e - 52))"

definition double :: "bool \<Rightarrow> int \<Rightarrow> int \<Rightarrow> jsnum" where
  "double pos n e =
     (if 2 ^ 1024 \<le> of_int n * pow2 (e - 52) then (if pos then PInf else NInf)
      else Fin (if pos then of_int n * pow2 (e - 52) else - (of_int n * pow2 (e - 52))))"

text \<open>
  The double nearest to \<open>a / b\<close> (\<open>a\<close> and \<open>b\<close> positive), negated unless \<open>pos\<close>.
  Below \<open>2^(-1022)\<close> the doubles are subnormal: the exponent stays at \<open>-1022\<close>.
\<close>

definition roundRatio :: "bool \<Rightarrow> int \<Rightarrow> int \<Rightarrow> jsnum" where
  "roundRatio pos a b =
     double pos (significand a b (max (binade a b) (- 1022))) (max (binade a b) (- 1022))"

definition round64 :: "rat \<Rightarrow> jsnum" where
  "round64 q =
     (if q = 0 then Fin 0
      else roundRatio (0 < q) (fst (quotient_of \<bar>q\<bar>)) (snd (quotient_of \<bar>q\<bar>)))"

text \<open>\<^verbatim>\<open>a + b\<close>, \<^verbatim>\<open>-a\<close> and \<^verbatim>\<open>a - b\<close> on numbers.\<close>

fun jsadd :: "jsnum \<Rightarrow> jsnum \<Rightarrow> jsnum" where
  "jsadd (Fin a) (Fin b) = round64 (a + b)"
| "jsadd NaN _ = NaN"
| "jsadd _ NaN = NaN"
| "jsadd PInf NInf = NaN"
| "jsadd NInf PInf = NaN"
| "jsadd PInf _ = PInf"
| "jsadd _ PInf = PInf"
| "jsadd NInf _ = NInf"
| "jsadd _ NInf = NInf"

fun jsneg :: "jsnum \<Rightarrow> jsnum" where
  "jsneg (Fin a) = Fin (- a)"
| "jsneg NaN = NaN"
| "jsneg PInf = NInf"
| "jsneg NInf = PInf"

definition jssub :: "jsnum \<Rightarrow> jsnum \<Rightarrow> jsnum" where
  "jssub a b = jsadd a (jsneg b)"

definition isNaN :: "jsnum \<Rightarrow> bool" where
  "isNaN n = (n = NaN)"

subsection \<open>Strings and values\<close>

text \<open>
  A string is the list of its UTF-16 code units. \<open>lit\<close> writes a string of the
  source text, \<open>cu\<close> one of its characters. An object or an array is kept as the
  string that its \<^verbatim>\<open>toString\<close> gives (\<^verbatim>\<open>[object Object]\<close> for a plain object, the
  joined elements for an array): the handlers read no field of such a value, and
  \<^verbatim>\<open>Number\<close> and \<^verbatim>\<open>String\<close> convert it through that string.
\<close>

type_synonym ustring = "nat list"

definition cu :: "char \<Rightarrow> nat" where
  "cu c = of_char c"

definition lit :: "string \<Rightarrow> ustring" where
  "lit s = map cu s"

datatype jsval =
    Undefined
  | Null
  | Bool bool
  | Num jsnum
  | Str ustring
  | DateV nat
  | Obj ustring

text \<open>Truthiness, as \<^verbatim>\<open>if (x)\<close>, \<^verbatim>\<open>!x\<close> and \<^verbatim>\<open>x || y\<close> test it.\<close>

fun truthy :: "jsval \<Rightarrow> bool" where
  "truthy Undefined = False"
| "truthy Null = False"
| "truthy (Bool b) = b"
| "truthy (Num n) = (n \<noteq> Fin 0 \<and> n \<noteq> NaN)"
| "truthy (Str s) = (s \<noteq> [])"
| "truthy (DateV t) = True"
| "truthy (Obj s) = True"

definition jsor :: "jsval \<Rightarrow> jsval \<Rightarrow> jsval" where
  "jsor a b = (if truthy a then a else b)"

subsection \<open>Number(string)\<close>

text \<open>
  \<^verbatim>\<open>Number(s)\<close> on a string follows the StringNumericLiteral grammar of ECMAScript:
  white space is trimmed, the empty string is \<open>0\<close>, then either a radix literal
  (\<^verbatim>\<open>0x\<close>, \<^verbatim>\<open>0o\<close>, \<^verbatim>\<open>0b\<close>, unsigned) or an optionally signed decimal literal
  (digits, fraction, exponent, or \<^verbatim>\<open>Infinity\<close>); anything else is \<^verbatim>\<open>NaN\<close>. The
  mathematical value of the literal is rounded to a double.
\<close>

definition isDigit :: "nat \<Rightarrow> bool" where
  "isDigit c = (c \<in> set (lit ''0123456789''))"

definition isHexDigit :: "nat \<Rightarrow> bool" where
  "isHexDigit c = (c \<in> set (lit ''0123456789abcdefABCDEF''))"

definition isOctDigit :: "nat \<Rightarrow> bool" where
  "isOctDigit c = (c \<in> set (lit ''01234567''))"

definition isBinDigit :: "nat \<Rightarrow> bool" where
  "isBinDigit c = (c \<in> set (lit ''01''))"

text \<open>
  The white space and line terminators of ECMAScript: TAB, LF, VT, FF, CR, SP, NBSP,
  U+1680, U+2000 to U+200A, LS, PS, U+202F, U+205F, U+3000 and the byte order mark.
\<close>

definition isWhiteSpace :: "nat \<Rightarrow> bool" where
  "isWhiteSpace c =
     (c \<in> {9, 10, 11, 12, 13, 32, 160, 5760, 8232, 8233, 8239, 8287, 12288, 65279}
      \<or> (8192 \<le> c \<and> c \<le> 8202))"

definition digitVal :: "nat \<Rightarrow> nat" where
  "digitVal c =
     (if isDigit c then c - 48
      else if c \<in> set (lit ''abcdef'') then c - 87
      else if c \<in> set (lit ''ABCDEF'') then c - 55
      else 0)"

definition radixValue :: "nat \<Rightarrow> ustring \<Rightarrow> nat" where
  "radixValue b ds = foldl (\<lambda>a c. a * b + digitVal c) 0 ds"

definition trimWS :: "ustring \<Rightarrow> ustring" where
  "trimWS s = rev (dropWhile isWhiteSpace (rev (dropWhile isWhiteSpace s)))"

text \<open>The double of the decimal \<open>m \<times> 10^e\<close>, and of the natural number \<open>n\<close>.\<close>

definition decimalNumber :: "nat \<Rightarrow> int \<Rightarrow> jsnum" where
  "decimalNumber m e =
     (if m = 0 then Fin 0 else roundRatio True (int m * 10 ^ nat e) (10 ^ nat (- e)))"

definition natNumber :: "nat \<Rightarrow> jsnum" where
  "natNumber n = decimalNumber n 0"

definition signedInteger :: "ustring \<Rightarrow> int option" where
  "signedInteger r =
     (if r \<noteq> [] \<and> hd r = cu CHR ''+'' then
        (if tl r \<noteq> [] \<and> list_all isDigit (tl r) then Some (int (radixValue 10 (tl r))) else None)
      else if r \<noteq> [] \<and> hd r = cu CHR ''-'' then
        (if tl r \<noteq> [] \<and> list_all isDigit (tl r) then Some (- int (radixValue 10 (tl r))) else None)
      else if r \<noteq> [] \<and> list_all isDigit r then Some (int (radixValue 10 r))
      else None)"

definition exponentPart :: "ustring \<Rightarrow> int option" where
  "exponentPart r =
     (if r = [] then Some 0
      else if hd r = cu CHR ''e'' \<or> hd r = cu CHR ''E'' then signedInteger (tl r)
      else None)"

definition unsignedDecimal :: "ustring \<Rightarrow> jsnum" where
  "unsignedDecimal s =
     (if s = lit ''Infinity'' then PInf
      else
        let ip = takeWhile isDigit s; r = dropWhile isDigit s in
        if r \<noteq> [] \<and> hd r = cu CHR ''.'' then
          (let fp = takeWhile isDigit (tl r); r2 = dropWhile isDigit (tl r) in
           if ip = [] \<and> fp = [] then NaN
           else (case exponentPart r2 of
                   None \<Rightarrow> NaN
                 | Some e \<Rightarrow> decimalNumber (radixValue 10 (ip @ fp)) (e - int (length fp))))
        else if ip = [] then NaN
        else (case exponentPart r of
                None \<Rightarrow> NaN
              | Some e \<Rightarrow> decimalNumber (radixValue 10 ip) e))"

definition radixLiteral :: "nat \<Rightarrow> (nat \<Rightarrow> bool) \<Rightarrow> ustring \<Rightarrow> jsnum" where
  "radixLiteral b ok ds = (if ds \<noteq> [] \<and> list_all ok ds then natNumber (radixValue b ds) else NaN)"

definition stringToNumber :: "ustring \<Rightarrow> jsnum" where
  "stringToNumber s =
     (let t = trimWS s in
      if t = [] then Fin 0
      else if take 2 t = lit ''0x'' \<or> take 2 t = lit ''0X'' then radixLiteral 16 isHexDigit (drop 2 t)
      else if take 2 t = lit ''0o'' \<or> take 2 t = lit ''0O'' then radixLiteral 8 isOctDigit (drop 2 t)
      else if take 2 t = lit ''0b'' \<or> take 2 t = lit ''0B'' then radixLiteral 2 isBinDigit (drop 2 t)
      else if hd t = cu CHR ''+'' then unsignedDecimal (tl t)
      else if hd t = cu CHR ''-'' then jsneg (unsignedDecimal (tl t))
      else unsignedDecimal t)"

text \<open>
  \<^verbatim>\<open>Number(v)\<close>. A date converts to its time stamp, an object or array through its
  string.
\<close>

fun Number :: "jsval \<Rightarrow> jsnum" where
  "Number Undefined = NaN"
| "Number Null = Fin 0"
| "Number (Bool b) = Fin (if b then 1 else 0)"
| "Number (Num n) = n"
| "Number (Str s) = stringToNumber s"
| "Number (DateV t) = natNumber t"
| "Number (Obj s) = stringToNumber s"

subsection \<open>The global match of \<^verbatim>\<open>/\d+/g\<close>\<close>

text \<open>
  \<^verbatim>\<open>s.match(/\d+/g)\<close> scans from the left: it skips to the next digit, takes digits
  greedily, and goes on behind the match. JavaScript returns \<^verbatim>\<open>null\<close> where the model
  returns the empty list.
\<close>

function matchDigits :: "ustring \<Rightarrow> ustring list" where
  "matchDigits s =
     (let r = dropWhile (\<lambda>c. \<not> isDigit c) s in
      if r = [] then [] else takeWhile isDigit r # matchDigits (dropWhile isDigit r))"
  by pat_completeness auto
termination
proof (relation "measure length")
  show "wf (measure length)" by simp
next
  fix s :: ustring and r
  assume r: "r = dropWhile (\<lambda>c. \<not> isDigit c) s" and ne: "r \<noteq> []"
  from ne obtain x xs where rx: "r = x # xs" by (cases r) auto
  from r rx have "dropWhile (\<lambda>c. \<not> isDigit c) s = x # xs" by simp
  then have "isDigit x" by (simp add: dropWhile_eq_Cons_conv)
  then have "length (dropWhile isDigit r) \<le> length xs"
    using rx by (simp add: length_dropWhile_le)
  moreover have "length r \<le> length s" using r by (simp add: length_dropWhile_le)
  ultimately show "(dropWhile isDigit r, s) \<in> measure length" using rx by simp
qed

declare matchDigits.simps [simp del]

section \<open>Documents and collections\<close>

text \<open>
  A request body and a Mongoose document are objects: finite maps from field names to
  values. Reading a field that is not there gives \<^verbatim>\<open>undefined\<close>. A collection is a
  list of documents with their \<^verbatim>\<open>_id\<close>, an ObjectId written as its hex string; the
  same string stands for the id inside a document (\<open>Str\<close>). The model keeps the
  documents as the handlers build them: the casts, defaults and validators of the
  Mongoose schemas are not in the repository's route code and the store is taken to
  accept every document and every id. Where a handler builds an ObjectId itself, with
  \<^verbatim>\<open>new mongoose.Types.ObjectId(req.user.id)\<close>, the constructor is the parameter
  \<open>objectId\<close>: it gives the hex string of the id, or nothing when it throws.
\<close>

type_synonym doc = "string \<rightharpoonup> jsval"

type_synonym objid = ustring

type_synonym collection = "(objid \<times> doc) list"

definition field :: "doc \<Rightarrow> string \<Rightarrow> jsval" where
  "field d k = (case d k of None \<Rightarrow> Undefined | Some v \<Rightarrow> v)"

definition findById :: "collection \<Rightarrow> objid \<Rightarrow> doc option" where
  "findById c i = map_of c i"

definition save :: "objid \<Rightarrow> doc \<Rightarrow> collection \<Rightarrow> collection" where
  "save i d c = AList.update i d c"

definition findByIdAndDelete :: "objid \<Rightarrow> collection \<Rightarrow> collection" where
  "findByIdAndDelete i c = AList.delete i c"

record user =
  uid :: ustring
  role :: ustring

datatype error = TypeError | DriverNotFound | VehicleNotFound | BSONError

section \<open>The aggregation of GET /trips/stats\<close>

text \<open>
  The fuel of one trip, lines 100 to 109 of \<^verbatim>\<open>trip.routes.js\<close>. Calling
  \<^verbatim>\<open>.match\<close> on a value that is not a string raises a TypeError.
\<close>

definition tripFuel :: "jsval \<Rightarrow> error + jsnum" where
  "tripFuel fuelAmount =
     (if truthy fuelAmount then
        (if \<not> isNaN (Number fuelAmount) then Inr (Number fuelAmount)
         else (case fuelAmount of
                 Str s \<Rightarrow>
                   (let matches = matchDigits s in
                    if matches \<noteq> [] then Inr (foldl jsadd (Fin 0) (map (\<lambda>m. Number (Str m)) matches))
                    else Inr (Fin 0))
               | _ \<Rightarrow> Inl TypeError))
      else Inr (Fin 0))"

record stats =
  totalTrips :: nat
  totalTripAmount :: jsnum
  totalExpenses :: jsnum
  totalMaintenance :: jsnum
  totalAds :: jsnum
  totalProfit :: jsnum

definition orZero :: "jsval \<Rightarrow> jsnum" where
  "orZero v = Number (jsor v (Num (Fin 0)))"

text \<open>The body of \<^verbatim>\<open>trips.forEach\<close>, lines 97 to 117.\<close>

definition tripStep :: "stats \<Rightarrow> doc \<Rightarrow> error + stats" where
  "tripStep acc trip =
     (let tripAmt = orZero (field trip ''tripAmount'') in
      case tripFuel (field trip ''fuelAmount'') of
        Inl e \<Rightarrow> Inl e
      | Inr fuel \<Rightarrow>
          (let expenses = jsadd (jsadd (jsadd fuel (orZero (field trip ''tolls'')))
                                       (orZero (field trip ''parkingCharges'')))
                                (orZero (field trip ''driverBeta''));
               profit = jssub tripAmt expenses
           in Inr (acc\<lparr>totalTripAmount := jsadd (totalTripAmount acc) tripAmt,
                        totalExpenses := jsadd (totalExpenses acc) expenses,
                        totalProfit := jsadd (totalProfit acc) profit\<rparr>)))"

fun forEachTrip :: "stats \<Rightarrow> doc list \<Rightarrow> error + stats" where
  "forEachTrip acc [] = Inr acc"
| "forEachTrip acc (trip # trips) =
     (case tripStep acc trip of Inl e \<Rightarrow> Inl e | Inr acc' \<Rightarrow> forEachTrip acc' trips)"

text \<open>Lines 92 to 128: the totals of a trip set and the two expense sets.\<close>

definition computeStats :: "doc list \<Rightarrow> doc list \<Rightarrow> doc list \<Rightarrow> error + stats" where
  "computeStats trips maintenances ads =
     (case forEachTrip \<lparr>totalTrips = length trips, totalTripAmount = Fin 0, totalExpenses = Fin 0,
                        totalMaintenance = Fin 0, totalAds = Fin 0, totalProfit = Fin 0\<rparr> trips of
        Inl e \<Rightarrow> Inl e
      | Inr acc \<Rightarrow>
          (let totalMaintenance' = foldl (\<lambda>sum m. jsadd sum (orZero (field m ''maintenanceCost''))) (Fin 0) maintenances;
               totalExpenses1 = jsadd (totalExpenses acc) totalMaintenance';
               totalAds' = foldl (\<lambda>sum ad. jsadd sum (orZero (field ad ''amount''))) (Fin 0) ads;
               totalExpenses2 = jsadd totalExpenses1 totalAds'
           in Inr (acc\<lparr>totalExpenses := totalExpenses2,
                        totalMaintenance := totalMaintenance',
                        totalAds := totalAds',
                        totalProfit := jssub (totalTripAmount acc) totalExpenses2\<rparr>)))"

section \<open>The route handlers\<close>

text \<open>
  \<^verbatim>\<open>src/routes/trip.routes.js\<close> holds two revisions of the router. The handlers
  below follow the first one (lines 1 to 296), which the server mounts; the second one
  (from line 297) has the same single-trip handlers and differs in POST /trips, in the
  listing and in the statistics.
\<close>

datatype body =
    TripJson objid doc
  | MessageJson string
  | MessageTripJson string objid doc
  | ListJson nat nat nat collection
  | StatsJson stats
  | ErrorMessage error
  | ServerError error

type_synonym response = "nat \<times> body"

text \<open>
  \<^verbatim>\<open>String(v)\<close>. The texts of numbers and dates are the engine's; the handlers take
  them as the parameter \<open>txt\<close>.
\<close>

fun String_js :: "(jsval \<Rightarrow> ustring) \<Rightarrow> jsval \<Rightarrow> ustring" where
  "String_js txt Undefined = lit ''undefined''"
| "String_js txt Null = lit ''null''"
| "String_js txt (Bool b) = (if b then lit ''true'' else lit ''false'')"
| "String_js txt (Str s) = s"
| "String_js txt (Obj s) = s"
| "String_js txt v = txt v"

subsection \<open>The Reference Resolver\<close>

text \<open>
  \<^verbatim>\<open>attachRefs\<close> comes from \<^verbatim>\<open>utils/tripHelpers\<close>, which is not among the
  sources; the four definitions of this subsection follow section 4.2 of the
  specification instead. The Driver and Vehicle records are only read; a Driver has
  the fields \<^verbatim>\<open>name\<close> and \<^verbatim>\<open>phone\<close> (as the drivers' routes write them), a Vehicle
  a \<^verbatim>\<open>type\<close>.
\<close>

text \<open>
  Modelled from the spec: the fetch of a referenced record by the id in the payload;
  a value that is no id finds nothing.
\<close>

definition lookupRef :: "collection \<Rightarrow> jsval \<Rightarrow> doc option" where
  "lookupRef c v = (case v of Str i \<Rightarrow> findById c i | _ \<Rightarrow> None)"

text \<open>
  Modelled from the spec: the driver half of \<^verbatim>\<open>attachRefs\<close>. ``If
  \<^verbatim>\<open>payload.driverId\<close> is present, fetch the Driver by id; if found, copy its
  display/contact fields into the payload under the trip's snapshot field names; if not
  found, fails with NotFound.'' The snapshot fields are \<^verbatim>\<open>driverName\<close> and
  \<^verbatim>\<open>driverNumber\<close>.
\<close>

definition attachDriver :: "collection \<Rightarrow> doc \<Rightarrow> error + doc" where
  "attachDriver Driver payload =
     (if truthy (field payload ''driverId'') then
        (case lookupRef Driver (field payload ''driverId'') of
           None \<Rightarrow> Inl DriverNotFound
         | Some d \<Rightarrow> Inr (payload(''driverName'' \<mapsto> field d ''name'',
                                 ''driverNumber'' \<mapsto> field d ''phone'')))
      else Inr payload)"

text \<open>
  Modelled from the spec: the vehicle half of \<^verbatim>\<open>attachRefs\<close>. ``Symmetric behavior
  for \<^verbatim>\<open>payload.vehicleId\<close> against Vehicle''; the snapshot field is
  \<^verbatim>\<open>vehicleType\<close>.
\<close>

definition attachVehicle :: "collection \<Rightarrow> doc \<Rightarrow> error + doc" where
  "attachVehicle Vehicle payload =
     (if truthy (field payload ''vehicleId'') then
        (case lookupRef Vehicle (field payload ''vehicleId'') of
           None \<Rightarrow> Inl VehicleNotFound
         | Some v \<Rightarrow> Inr (payload(''vehicleType'' \<mapsto> field v ''type'')))
      else Inr payload)"

text \<open>
  Modelled from the spec: \<^verbatim>\<open>attachRefs(payload)\<close>. ``Resolution of driver and vehicle
  references is independent and order-insensitive; both are attempted when both ids are
  present.''
\<close>

definition attachRefs :: "collection \<Rightarrow> collection \<Rightarrow> doc \<Rightarrow> error + doc" where
  "attachRefs Driver Vehicle payload =
     (case attachDriver Driver payload of
        Inl e \<Rightarrow> Inl e
      | Inr p \<Rightarrow> attachVehicle Vehicle p)"

text \<open>
  Modelled from the spec: the Trip model of \<^verbatim>\<open>models/trips\<close>, which is not among the
  sources. Section 3: \<^verbatim>\<open>isDriverDeleted\<close> is a boolean with default false.
\<close>

definition newTrip :: "doc \<Rightarrow> doc" where
  "newTrip data =
     (if data ''isDriverDeleted'' = None then data(''isDriverDeleted'' \<mapsto> Bool False) else data)"

subsection \<open>POST /trips\<close>

text \<open>
  Lines 12 to 45. \<open>newId\<close> is the id the store gives the new document. An error of
  the resolver is caught and answered with 400; nothing is saved then.
\<close>

definition createAdminRefs :: "collection \<Rightarrow> collection \<Rightarrow> user \<Rightarrow> doc \<Rightarrow> error + doc" where
  "createAdminRefs Driver Vehicle u data =
     (if role u = lit ''admin'' then
        (if truthy (field data ''driverId'') \<or> truthy (field data ''vehicleId'')
         then attachRefs Driver Vehicle data else Inr data)
      else Inr data)"

definition createDriverRefs :: "collection \<Rightarrow> collection \<Rightarrow> user \<Rightarrow> doc \<Rightarrow> error + doc" where
  "createDriverRefs Driver Vehicle u data0 =
     (if role u = lit ''driver'' then
        (let data = data0(''driverId'' \<mapsto> Str (uid u)) in
         if truthy (field data ''vehicleId'')
         then attachRefs Driver Vehicle (data(''driverId'' \<mapsto> field data ''driverId''))
         else Inr data)
      else Inr data0)"

definition createTrip ::
  "collection \<Rightarrow> collection \<Rightarrow> objid \<Rightarrow> collection \<Rightarrow> user \<Rightarrow> doc \<Rightarrow> response \<times> collection" where
  "createTrip Driver Vehicle newId Trip u reqBody =
     (let data = reqBody(''createdByRole'' \<mapsto> Str (role u), ''createdBy'' \<mapsto> Str (uid u)) in
      case createAdminRefs Driver Vehicle u data of
        Inl err \<Rightarrow> ((400, ErrorMessage err), Trip)
      | Inr data1 \<Rightarrow>
          (case createDriverRefs Driver Vehicle u data1 of
             Inl err \<Rightarrow> ((400, ErrorMessage err), Trip)
           | Inr data2 \<Rightarrow>
               (let trip = newTrip data2 in
                ((201, TripJson newId trip), save newId trip Trip))))"

text \<open>
  The second revision of the handler, lines 308 to 347: after the resolver it deletes
  \<^verbatim>\<open>driverName\<close> and \<^verbatim>\<open>driverNumber\<close> from the data of a driver
  (``Ensure driverName / driverNumber are not added for drivers'').
\<close>

definition createDriverRefsRev2 :: "collection \<Rightarrow> collection \<Rightarrow> user \<Rightarrow> doc \<Rightarrow> error + doc" where
  "createDriverRefsRev2 Driver Vehicle u data0 =
     (if role u = lit ''driver'' then
        (let data = data0(''driverId'' \<mapsto> Str (uid u)) in
         if truthy (field data ''vehicleId'')
         then (case attachRefs Driver Vehicle (data(''driverId'' \<mapsto> field data ''driverId'')) of
                 Inl err \<Rightarrow> Inl err
               | Inr data' \<Rightarrow> Inr (data'(''driverName'' := None, ''driverNumber'' := None)))
         else Inr data)
      else Inr data0)"

definition createTripRev2 ::
  "collection \<Rightarrow> collection \<Rightarrow> objid \<Rightarrow> collection \<Rightarrow> user \<Rightarrow> doc \<Rightarrow> response \<times> collection" where
  "createTripRev2 Driver Vehicle newId Trip u reqBody =
     (let data = reqBody(''createdByRole'' \<mapsto> Str (role u), ''createdBy'' \<mapsto> Str (uid u)) in
      case createAdminRefs Driver Vehicle u data of
        Inl err \<Rightarrow> ((400, ErrorMessage err), Trip)
      | Inr data1 \<Rightarrow>
          (case createDriverRefsRev2 Driver Vehicle u data1 of
             Inl err \<Rightarrow> ((400, ErrorMessage err), Trip)
           | Inr data2 \<Rightarrow>
               (let trip = newTrip data2 in
                ((201, TripJson newId trip), save newId trip Trip))))"

subsection \<open>GET /trips and GET /trips/stats\<close>

text \<open>
  The query \<^verbatim>\<open>{ isDriverDeleted: { $ne: true } }\<close>, with \<^verbatim>\<open>driverId\<close> set to the
  ObjectId of the caller when there is one (lines 52 to 57 and 72 to 76).
\<close>

definition tripMatch :: "ustring option \<Rightarrow> doc \<Rightarrow> bool" where
  "tripMatch driverId d =
     (field d ''isDriverDeleted'' \<noteq> Bool True \<and>
      (case driverId of None \<Rightarrow> True | Some oid \<Rightarrow> field d ''driverId'' = Str oid))"

definition findDocs :: "(doc \<Rightarrow> bool) \<Rightarrow> collection \<Rightarrow> collection" where
  "findDocs m c = filter (\<lambda>(i, d). m d) c"

text \<open>
  Lines 49 to 66. \<open>sortBy\<close> is the store's \<^verbatim>\<open>.sort(sort)\<close>, which reorders the
  rows it is given. For a driver the ObjectId of the caller's id is built first; when
  the constructor throws, the \<^verbatim>\<open>catch\<close> answers 500.
\<close>

definition listRows ::
  "(ustring \<Rightarrow> collection \<Rightarrow> collection) \<Rightarrow> collection \<Rightarrow> ustring option \<Rightarrow> ustring option
     \<Rightarrow> response" where
  "listRows sortBy Trip driverId querySort =
     (let sort = (case querySort of None \<Rightarrow> lit ''-createdAt''
                  | Some q \<Rightarrow> if q = [] then lit ''-createdAt'' else q);
          rows = sortBy sort (findDocs (tripMatch driverId) Trip);
          total = length rows
      in (200, ListJson total 1 total rows))"

definition listTrips ::
  "(ustring \<Rightarrow> ustring option) \<Rightarrow> (ustring \<Rightarrow> collection \<Rightarrow> collection) \<Rightarrow> collection \<Rightarrow> user
     \<Rightarrow> ustring option \<Rightarrow> response" where
  "listTrips objectId sortBy Trip u querySort =
     (if role u = lit ''driver'' then
        (case objectId (uid u) of
           None \<Rightarrow> (500, ServerError BSONError)
         | Some oid \<Rightarrow> listRows sortBy Trip (Some oid) querySort)
      else listRows sortBy Trip None querySort)"

text \<open>
  Lines 70 to 143. A driver's id is made an ObjectId twice, for the trips and for the
  maintenance records (lines 75 and 84); a constructor that throws is answered with
  500, and so is a TypeError of the fuel parsing.
\<close>

definition maintenanceMatch :: "ustring option \<Rightarrow> doc \<Rightarrow> bool" where
  "maintenanceMatch driver m =
     (case driver of None \<Rightarrow> True | Some oid \<Rightarrow> field m ''driver'' = Str oid)"

definition statsOf ::
  "collection \<Rightarrow> collection \<Rightarrow> collection \<Rightarrow> ustring option \<Rightarrow> response" where
  "statsOf Trip Maintenance Ad driverId =
     (let trips = findDocs (tripMatch driverId) Trip;
          maintenances = findDocs (maintenanceMatch driverId) Maintenance;
          ads = findDocs (\<lambda>d. True) Ad
      in case computeStats (map snd trips) (map snd maintenances) (map snd ads) of
           Inl err \<Rightarrow> (500, ServerError err)
         | Inr st \<Rightarrow> (200, StatsJson st))"

definition getStats ::
  "(ustring \<Rightarrow> ustring option) \<Rightarrow> collection \<Rightarrow> collection \<Rightarrow> collection \<Rightarrow> user \<Rightarrow> response" where
  "getStats objectId Trip Maintenance Ad u =
     (if role u = lit ''driver'' then
        (case objectId (uid u) of
           None \<Rightarrow> (500, ServerError BSONError)
         | Some oid \<Rightarrow> statsOf Trip Maintenance Ad (Some oid))
      else statsOf Trip Maintenance Ad None)"

subsection \<open>GET, PUT, DELETE /trips/:id and POST /trips/:id/restore\<close>

definition notOwner :: "(jsval \<Rightarrow> ustring) \<Rightarrow> user \<Rightarrow> doc \<Rightarrow> bool" where
  "notOwner txt u trip =
     (role u = lit ''driver'' \<and> String_js txt (field trip ''driverId'') \<noteq> uid u)"

text \<open>Lines 147 to 163.\<close>

definition getTrip ::
  "(jsval \<Rightarrow> ustring) \<Rightarrow> collection \<Rightarrow> user \<Rightarrow> objid \<Rightarrow> ustring option \<Rightarrow> response" where
  "getTrip txt Trip u tid includeDeleted =
     (case findById Trip tid of
        None \<Rightarrow> (404, MessageJson ''Trip not found'')
      | Some trip \<Rightarrow>
          if notOwner txt u trip then (403, MessageJson ''Forbidden'')
          else if role u = lit ''driver'' \<and> truthy (field trip ''isDriverDeleted'')
                  \<and> includeDeleted \<noteq> Some (lit ''true'')
          then (404, MessageJson ''Trip not found'')
          else (200, TripJson tid trip))"

text \<open>Lines 166 to 194. \<^verbatim>\<open>Object.assign\<close> writes every field of the updates.\<close>

definition driverForbidden :: "string set" where
  "driverForbidden =
     {''isDriverDeleted'', ''driverDeletedAt'', ''driverDeletedBy'', ''createdBy'', ''createdByRole''}"

definition updateTrip ::
  "(jsval \<Rightarrow> ustring) \<Rightarrow> collection \<Rightarrow> collection \<Rightarrow> collection \<Rightarrow> user \<Rightarrow> objid \<Rightarrow> doc
     \<Rightarrow> response \<times> collection" where
  "updateTrip txt Driver Vehicle Trip u tid reqBody =
     (case findById Trip tid of
        None \<Rightarrow> ((404, MessageJson ''Trip not found''), Trip)
      | Some trip \<Rightarrow>
          if notOwner txt u trip then ((403, MessageJson ''Forbidden''), Trip)
          else
            (case (if truthy (field reqBody ''driverId'') \<or> truthy (field reqBody ''vehicleId'')
                   then attachRefs Driver Vehicle reqBody else Inr reqBody) of
               Inl err \<Rightarrow> ((400, ErrorMessage err), Trip)
             | Inr updates0 \<Rightarrow>
                 (let updates = (if role u = lit ''driver'' then updates0 |` (- driverForbidden)
                                 else updates0);
                      trip' = trip ++ updates
                  in ((200, TripJson tid trip'), save tid trip' Trip))))"

text \<open>Lines 197 to 229. \<open>now\<close> is the value of \<^verbatim>\<open>new Date()\<close>.\<close>

definition deleteTrip ::
  "(jsval \<Rightarrow> ustring) \<Rightarrow> nat \<Rightarrow> collection \<Rightarrow> user \<Rightarrow> objid \<Rightarrow> ustring option
     \<Rightarrow> response \<times> collection" where
  "deleteTrip txt now Trip u tid queryHard =
     (case findById Trip tid of
        None \<Rightarrow> ((404, MessageJson ''Trip not found''), Trip)
      | Some trip \<Rightarrow>
          if role u = lit ''driver'' then
            (if String_js txt (field trip ''driverId'') \<noteq> uid u
             then ((403, MessageJson ''Forbidden''), Trip)
             else if \<not> truthy (field trip ''isDriverDeleted'') then
               (let trip' = trip(''isDriverDeleted'' \<mapsto> Bool True,
                                 ''driverDeletedAt'' \<mapsto> DateV now,
                                 ''driverDeletedBy'' \<mapsto> Str (uid u))
                in ((200, MessageTripJson ''Trip marked deleted by driver'' tid trip'),
                    save tid trip' Trip))
             else ((200, MessageTripJson ''Trip marked deleted by driver'' tid trip), Trip))
          else
            (let hard = (queryHard = Some (lit ''true'')) in
             if hard then
               ((200, MessageJson ''Trip permanently deleted by admin''), findByIdAndDelete tid Trip)
             else
               (let trip' = (if \<not> truthy (field trip ''isDriverDeleted'')
                             then trip(''isDriverDeleted'' \<mapsto> Bool True,
                                       ''driverDeletedAt'' \<mapsto> DateV now)
                             else trip)
                in ((200, MessageTripJson ''Trip soft-deleted by admin'' tid trip'),
                    save tid trip' Trip))))"

text \<open>Lines 233 to 247.\<close>

definition restoreTrip :: "collection \<Rightarrow> user \<Rightarrow> objid \<Rightarrow> response \<times> collection" where
  "restoreTrip Trip u tid =
     (if role u \<noteq> lit ''admin'' then ((403, MessageJson ''Admins only''), Trip)
      else
        (case findById Trip tid of
           None \<Rightarrow> ((404, MessageJson ''Trip not found''), Trip)
         | Some trip \<Rightarrow>
             (let trip' = trip(''isDriverDeleted'' \<mapsto> Bool False,
                               ''driverDeletedAt'' \<mapsto> Null,
                               ''driverDeletedBy'' \<mapsto> Null)
              in ((200, MessageTripJson ''Trip restored'' tid trip'), save tid trip' Trip))))"

section \<open>The words of the specification\<close>

text \<open>
  A maximal run of digits starts at a digit that no digit precedes and takes the
  digits that follow; the runs are listed from left to right. A run read as an integer
  is its value in positional decimal notation.
\<close>

definition isRunStart :: "ustring \<Rightarrow> nat \<Rightarrow> bool" where
  "isRunStart s i = (i < length s \<and> isDigit (s ! i) \<and> (i = 0 \<or> \<not> isDigit (s ! (i - 1))))"

definition digitRuns :: "ustring \<Rightarrow> ustring list" where
  "digitRuns s = map (\<lambda>i. takeWhile isDigit (drop i s)) (filter (isRunStart s) [0..<length s])"

definition decimal :: "ustring \<Rightarrow> nat" where
  "decimal ds = (\<Sum>k<length ds. digitVal (ds ! k) * 10 ^ (length ds - Suc k))"

text \<open>
  The runs of a string that follows a character already read; \<open>prev\<close> tells whether
  that character was a digit. It generalises \<open>digitRuns\<close> for the induction.
\<close>

definition runsAfter :: "bool \<Rightarrow> ustring \<Rightarrow> ustring list" where
  "runsAfter prev s =
     map (\<lambda>i. takeWhile isDigit (drop i s))
       (filter (\<lambda>i. isDigit (s ! i) \<and> (if i = 0 then \<not> prev else \<not> isDigit (s ! (i - 1))))
          [0..<length s])"

section \<open>A small fleet\<close>

text \<open>Two drivers, an administrator, one vehicle and a few trips, for the concrete cases.\<close>

definition sampleText :: "jsval \<Rightarrow> ustring" where
  "sampleText v = lit ''[object]''"

definition storeOrder :: "ustring \<Rightarrow> collection \<Rightarrow> collection" where
  "storeOrder key rows = rows"

definition driver1 :: user where
  "driver1 = \<lparr>uid = lit ''d1'', role = lit ''driver''\<rparr>"

definition driver2 :: user where
  "driver2 = \<lparr>uid = lit ''d2'', role = lit ''driver''\<rparr>"

definition admin1 :: user where
  "admin1 = \<lparr>uid = lit ''a1'', role = lit ''admin''\<rparr>"

definition sampleDrivers :: collection where
  "sampleDrivers =
     [(lit ''d1'', [''name'' \<mapsto> Str (lit ''Asha''), ''phone'' \<mapsto> Str (lit ''9000000001'')]),
      (lit ''d2'', [''name'' \<mapsto> Str (lit ''Bala''), ''phone'' \<mapsto> Str (lit ''9000000002'')])]"

definition sampleVehicles :: collection where
  "sampleVehicles = [(lit ''v1'', [''type'' \<mapsto> Str (lit ''Sedan'')])]"

definition trip1 :: doc where
  "trip1 = [''driverId'' \<mapsto> Str (lit ''d1''), ''tripAmount'' \<mapsto> Num (Fin 1000),
            ''fuelAmount'' \<mapsto> Str (lit ''300''), ''tolls'' \<mapsto> Num (Fin 0)]"

definition trip2 :: doc where
  "trip2 = [''driverId'' \<mapsto> Str (lit ''d2''), ''tripAmount'' \<mapsto> Num (Fin 2000),
            ''fuelAmount'' \<mapsto> Str (lit ''1 x 50''), ''tolls'' \<mapsto> Num (Fin 20)]"

definition trip3 :: doc where
  "trip3 = [''driverId'' \<mapsto> Str (lit ''d1''), ''tripAmount'' \<mapsto> Num (Fin 500),
            ''isDriverDeleted'' \<mapsto> Bool True, ''driverDeletedAt'' \<mapsto> DateV 7,
            ''driverDeletedBy'' \<mapsto> Str (lit ''d1'')]"

definition scenarioTrips :: collection where
  "scenarioTrips = [(lit ''t1'', trip1), (lit ''t2'', trip2)]"

definition fleetTrips :: collection where
  "fleetTrips = [(lit ''t1'', trip1), (lit ''t3'', trip3), (lit ''t2'', trip2)]"

text \<open>
  A driver and a store with ObjectIds of 24 hex digits, and an ObjectId constructor
  that takes such strings, in lower case, and throws on any other.
\<close>

definition lowerHex :: "nat \<Rightarrow> nat" where
  "lowerHex c = (if 65 \<le> c \<and> c \<le> 70 then c + 32 else c)"

definition hexObjectId :: "ustring \<Rightarrow> ustring option" where
  "hexObjectId s = (if length s = 24 \<and> list_all isHexDigit s then Some (map lowerHex s) else None)"

definition driver3 :: user where
  "driver3 = \<lparr>uid = lit ''64b7f0c2a1d3e4f5a6b7c8d9'', role = lit ''driver''\<rparr>"

definition trip4 :: doc where
  "trip4 = [''driverId'' \<mapsto> Str (lit ''64b7f0c2a1d3e4f5a6b7c8d9''),
            ''tripAmount'' \<mapsto> Num (Fin 700)]"

definition trip5 :: doc where
  "trip5 = [''driverId'' \<mapsto> Str (lit ''64b7f0c2a1d3e4f5a6b7c8d9''),
            ''tripAmount'' \<mapsto> Num (Fin 900), ''isDriverDeleted'' \<mapsto> Bool True,
            ''driverDeletedAt'' \<mapsto> DateV 7,
            ''driverDeletedBy'' \<mapsto> Str (lit ''64b7f0c2a1d3e4f5a6b7c8d9'')]"

definition hexTrips :: collection where
  "hexTrips = [(lit ''64b7f0c2a1d3e4f5a6b70001'', trip4), (lit ''64b7f0c2a1d3e4f5a6b70002'', trip5)]"

section \<open>Lemmas about the store and the documents\<close>

lemma findById_save: "findById (save i d c) j = (if j = i then Some d else findById c j)"
  by (simp add: findById_def save_def update_conv')

lemma findById_delete:
  "findById (findByIdAndDelete i c) j = (if j = i then None else findById c j)"
  by (simp add: findById_def findByIdAndDelete_def delete_conv')

lemma save_same: "findById c i = Some d \<Longrightarrow> save i d c = c"
  by (simp add: findById_def save_def update_triv)

lemma keys_save: "findById c i = Some d0 \<Longrightarrow> map fst (save i d c) = map fst c"
  by (auto simp: findById_def save_def update_keys dest: map_of_SomeD intro: rev_image_eqI)

lemma field_upd: "field (d(k \<mapsto> v)) k' = (if k' = k then v else field d k')"
  by (simp add: field_def)

lemma lit_Nil: "lit [] = []"
  by (simp add: lit_def)

lemma lit_Cons: "lit (c # s) = cu c # lit s"
  by (simp add: lit_def)

lemma cu_eq_iff [simp]: "cu c = cu d \<longleftrightarrow> c = d"
  by (simp add: cu_def)

lemma lit_eq_iff [simp]: "lit s = lit t \<longleftrightarrow> s = t"
  by (simp add: lit_def inj_map_eq_map inj_def)

lemma lit_eq_Nil_iff [simp]: "lit s = [] \<longleftrightarrow> s = []"
  by (simp add: lit_def)

section \<open>The digit runs of the fuel text\<close>

lemma digitRuns_runsAfter: "digitRuns s = runsAfter False s"
  unfolding digitRuns_def runsAfter_def isRunStart_def
  by (rule arg_cong [where f = "map _"], rule filter_cong) auto

lemma runsAfter_Nil: "runsAfter p [] = []"
  by (simp add: runsAfter_def)

lemma runsAfter_Cons:
  "runsAfter p (c # s) =
     (if isDigit c \<and> \<not> p then [c # takeWhile isDigit s] else []) @ runsAfter (isDigit c) s"
proof -
  let ?start = "\<lambda>prev t i. isDigit (t ! i) \<and> (if i = 0 then \<not> prev else \<not> isDigit (t ! (i - 1)))"
  let ?run = "\<lambda>t i. takeWhile isDigit (drop i t)"
  have upt: "[0..<length (c # s)] = 0 # map Suc [0..<length s]"
    by (simp add: upt_conv_Cons map_Suc_upt del: upt_Suc)
  have shift: "?start p (c # s) (Suc i) = ?start (isDigit c) s i" for i
    by (cases i) auto
  have "filter (?start p (c # s)) (map Suc [0..<length s])
        = map Suc (filter (?start (isDigit c) s) [0..<length s])"
    unfolding filter_map comp_def shift ..
  then have tail: "map (?run (c # s)) (filter (?start p (c # s)) (map Suc [0..<length s]))
        = runsAfter (isDigit c) s"
    by (simp add: runsAfter_def comp_def)
  have "runsAfter p (c # s)
        = map (?run (c # s)) (filter (?start p (c # s)) (0 # map Suc [0..<length s]))"
    unfolding runsAfter_def upt ..
  also have "\<dots> = (if ?start p (c # s) 0 then [?run (c # s) 0] else [])
        @ map (?run (c # s)) (filter (?start p (c # s)) (map Suc [0..<length s]))"
    by simp
  also have "\<dots> = (if isDigit c \<and> \<not> p then [c # takeWhile isDigit s] else [])
        @ runsAfter (isDigit c) s"
    unfolding tail by simp
  finally show ?thesis .
qed

lemma runsAfter_True: "runsAfter True s = runsAfter False (dropWhile isDigit s)"
  by (induction s) (simp_all add: runsAfter_Nil runsAfter_Cons)

lemma digitRuns_Nil: "digitRuns [] = []"
  by (simp add: digitRuns_runsAfter runsAfter_Nil)

lemma digitRuns_Cons:
  "digitRuns (c # s) =
     (if isDigit c then (c # takeWhile isDigit s) # digitRuns (dropWhile isDigit s)
      else digitRuns s)"
  by (simp add: digitRuns_runsAfter runsAfter_Cons runsAfter_True)

lemma matchDigits_Nil: "matchDigits [] = []"
  by (simp add: matchDigits.simps)

lemma matchDigits_Cons:
  "matchDigits (c # s) =
     (if isDigit c then (c # takeWhile isDigit s) # matchDigits (dropWhile isDigit s)
      else matchDigits s)"
  by (subst matchDigits.simps, subst (2) matchDigits.simps) (simp add: Let_def)

text \<open>The global match returns the maximal runs of digits, in their order.\<close>

lemma matchDigits_digitRuns: "matchDigits s = digitRuns s"
proof (induction "length s" arbitrary: s rule: less_induct)
  case less
  show ?case
  proof (cases s)
    case Nil
    then show ?thesis by (simp add: matchDigits_Nil digitRuns_Nil)
  next
    case (Cons c r)
    have "length (dropWhile isDigit r) < length s"
      using Cons length_dropWhile_le [of isDigit r] by simp
    then have "matchDigits (dropWhile isDigit r) = digitRuns (dropWhile isDigit r)"
      by (rule less)
    moreover have "matchDigits r = digitRuns r"
      using Cons by (intro less) simp
    ultimately show ?thesis
      using Cons by (simp add: matchDigits_Cons digitRuns_Cons)
  qed
qed

lemma digitRuns_digits: "m \<in> set (digitRuns s) \<Longrightarrow> m \<noteq> [] \<and> list_all isDigit m"
proof -
  assume "m \<in> set (digitRuns s)"
  then obtain i where i: "isRunStart s i" and m: "m = takeWhile isDigit (drop i s)"
    by (auto simp: digitRuns_def)
  from i have "drop i s = s ! i # drop (Suc i) s" "isDigit (s ! i)"
    by (simp_all add: isRunStart_def Cons_nth_drop_Suc)
  with m have "m \<noteq> []" by simp
  moreover have "list_all isDigit m"
    unfolding m list_all_iff by (auto dest: set_takeWhileD)
  ultimately show ?thesis by simp
qed

section \<open>Rounding is exact on the integers below \<open>2^53\<close>\<close>

lemma floorlog_one: "floorlog 2 (Suc 0) = Suc 0"
  by (simp add: compute_floorlog)

lemma binade_nat:
  assumes "0 < n"
  shows "binade (int n) 1 = int (floorlog 2 n) - 1"
proof -
  have "2 ^ (floorlog 2 n - 1) \<le> n"
    using floorlog_bounds [of n 2] assms by simp
  moreover have "0 < floorlog 2 n"
    using assms floorlog_eq_zero_iff [of 2 n] by simp
  ultimately have "(2::int) ^ nat (int (floorlog 2 n) - 1) \<le> int n"
    by (metis Suc_pred' add_diff_cancel_left' nat_int of_nat_Suc of_nat_le_iff of_nat_numeral of_nat_power plus_1_eq_Suc)
  moreover have "nat (- (int (floorlog 2 n) - 1)) = 0"
    using \<open>0 < floorlog 2 n\<close> by simp
  ultimately show ?thesis
    by (simp add: binade_def binadeFrom_def floorlog_one)
qed

lemma roundRatio_nat:
  assumes "0 < n" and "n < 2 ^ 53"
  shows "roundRatio pos (int n) 1 = Fin (if pos then of_nat n else - of_nat n)"
proof -
  define k where "k = int (floorlog 2 n) - 1"
  have "floorlog 2 n \<le> 53"
    using assms(2) by (simp add: floorlog_le_iff)
  moreover have "0 < floorlog 2 n"
    using assms(1) floorlog_eq_zero_iff [of 2 n] by simp
  ultimately have k: "0 \<le> k" "k \<le> 52"
    by (simp_all add: k_def)
  define m where "m = nat (52 - k)"
  have e: "max (binade (int n) 1) (- 1022) = k"
    using k by (simp add: binade_nat [OF assms(1)] k_def)
  have s: "significand (int n) 1 k = int n * 2 ^ m"
    using k by (simp add: significand_def roundQuot_def m_def)
  have p: "pow2 (k - 52) * 2 ^ m = 1"
    using k by (auto simp: pow2_def m_def nat_diff_distrib)
  then have v: "of_int (int n * 2 ^ m) * pow2 (k - 52) = of_nat n"
    by (simp add: mult.assoc mult.commute [of "2 ^ m"])
  have "(of_nat n :: rat) < 2 ^ 53"
    using assms(2) by (metis of_nat_less_iff of_nat_numeral of_nat_power)
  also have "\<dots> \<le> 2 ^ 1024" by simp
  finally have small: "\<not> (2::rat) ^ 1024 \<le> of_nat n" by simp
  show ?thesis
    unfolding roundRatio_def e s double_def v using small by simp
qed

lemma natNumber_exact: "n < 2 ^ 53 \<Longrightarrow> natNumber n = Fin (of_nat n)"
  by (cases "n = 0") (simp_all add: natNumber_def decimalNumber_def roundRatio_nat)

lemma round64_int:
  assumes "\<bar>i\<bar> < 2 ^ 53"
  shows "round64 (of_int i) = Fin (of_int i)"
proof (cases "i = 0")
  case True
  then show ?thesis by (simp add: round64_def)
next
  case False
  define n where "n = nat \<bar>i\<bar>"
  have n: "0 < n" "n < 2 ^ 53" "int n = \<bar>i\<bar>"
    using False assms by (simp_all add: n_def nat_less_iff)
  have q: "quotient_of \<bar>rat_of_int i\<bar> = (int n, 1)"
    using n(3) by (metis of_int_abs quotient_of_rat_of_int)
  have "(if 0 < i then rat_of_nat n else - rat_of_nat n) = of_int i"
    using n(3) False by (auto simp: of_nat_nat n_def)
  then show ?thesis
    using False by (simp add: round64_def q roundRatio_nat [OF n(1,2)])
qed

lemma round64_numeral [simp]:
  "numeral k < (2::int) ^ 53 \<Longrightarrow> round64 (numeral k) = Fin (numeral k)"
  "numeral k < (2::int) ^ 53 \<Longrightarrow> round64 (- numeral k) = Fin (- numeral k)"
  "round64 0 = Fin 0" "round64 1 = Fin 1"
  using round64_int [of "numeral k"] round64_int [of "- numeral k"] round64_int [of 1]
  by (simp_all add: round64_def)

lemma jsadd_nat:
  "a + b < 2 ^ 53 \<Longrightarrow> jsadd (Fin (of_nat a)) (Fin (of_nat b)) = Fin (of_nat (a + b))"
  using round64_int [of "int (a + b)"] by (simp add: nat_less_iff flip: of_nat_add)

section \<open>Number on a run of digits\<close>

lemma isDigit_iff: "isDigit c \<longleftrightarrow> 48 \<le> c \<and> c \<le> 57"
  unfolding isDigit_def by (simp add: lit_Cons lit_Nil cu_def) arith

lemma digit_not_space: "isDigit c \<Longrightarrow> \<not> isWhiteSpace c"
  by (auto simp: isDigit_iff isWhiteSpace_def)

lemma digit_cases:
  "isDigit c \<Longrightarrow> c \<noteq> cu CHR ''+'' \<and> c \<noteq> cu CHR ''-'' \<and> c \<noteq> cu CHR ''.'' \<and> c \<noteq> cu CHR ''I''
     \<and> c \<noteq> cu CHR ''x'' \<and> c \<noteq> cu CHR ''X'' \<and> c \<noteq> cu CHR ''o'' \<and> c \<noteq> cu CHR ''O''
     \<and> c \<noteq> cu CHR ''b'' \<and> c \<noteq> cu CHR ''B''"
  by (auto simp: isDigit_iff cu_def)

lemma trimWS_digits:
  assumes "ds \<noteq> []" and "list_all isDigit ds"
  shows "trimWS ds = ds"
proof -
  from assms have "\<not> isWhiteSpace (hd ds)"
    by (cases ds) (auto simp: digit_not_space)
  with assms(1) have a: "dropWhile isWhiteSpace ds = ds"
    by (cases ds) auto
  from assms have "\<not> isWhiteSpace (last ds)"
    by (auto simp: list_all_iff digit_not_space)
  with assms(1) have "dropWhile isWhiteSpace (rev ds) = rev ds"
    by (cases "rev ds") (auto simp: hd_rev)
  with a show ?thesis by (simp add: trimWS_def)
qed

lemma unsignedDecimal_digits:
  assumes "ds \<noteq> []" and "list_all isDigit ds"
  shows "unsignedDecimal ds = natNumber (radixValue 10 ds)"
proof -
  from assms have "isDigit (hd ds)" by (cases ds) auto
  then have "ds \<noteq> lit ''Infinity''" using digit_cases [of "hd ds"] by (auto simp: lit_Cons)
  moreover from assms(2) have tw: "takeWhile isDigit ds = ds" and dw: "dropWhile isDigit ds = []"
    by (simp_all add: list_all_iff)
  ultimately show ?thesis
    using assms(1) by (simp add: unsignedDecimal_def tw dw exponentPart_def natNumber_def)
qed

lemma stringToNumber_digits:
  assumes "ds \<noteq> []" and "list_all isDigit ds"
  shows "stringToNumber ds = natNumber (radixValue 10 ds)"
proof -
  from assms have hd: "isDigit (hd ds)" by (cases ds) auto
  have two: "take 2 ds \<noteq> [a, b]" if "\<not> isDigit b" for a b
  proof
    assume "take 2 ds = [a, b]"
    then obtain r where "ds = a # b # r"
      by (cases ds; cases "tl ds") (auto simp: numeral_2_eq_2)
    with assms(2) that show False by simp
  qed
  have "take 2 ds \<noteq> lit ''0x''" "take 2 ds \<noteq> lit ''0X''" "take 2 ds \<noteq> lit ''0o''"
    "take 2 ds \<noteq> lit ''0O''" "take 2 ds \<noteq> lit ''0b''" "take 2 ds \<noteq> lit ''0B''"
    unfolding lit_Cons lit_Nil by (rule two, simp add: isDigit_iff cu_def)+
  then show ?thesis
    using assms hd digit_cases [of "hd ds"]
    by (simp add: stringToNumber_def trimWS_digits unsignedDecimal_digits)
qed

lemma radixValue_snoc: "radixValue b (ds @ [c]) = radixValue b ds * b + digitVal c"
  by (simp add: radixValue_def)

lemma decimal_snoc: "decimal (ds @ [c]) = decimal ds * 10 + digitVal c"
proof -
  have "(\<Sum>k<length ds. digitVal ((ds @ [c]) ! k) * 10 ^ (length (ds @ [c]) - Suc k))
      = (\<Sum>k<length ds. (digitVal (ds ! k) * 10 ^ (length ds - Suc k)) * 10)"
  proof (rule sum.cong)
    fix k assume "k \<in> {..<length ds}"
    then have k: "k < length ds" by simp
    then have "length ds - k = Suc (length ds - Suc k)" by simp
    with k show "digitVal ((ds @ [c]) ! k) * 10 ^ (length (ds @ [c]) - Suc k)
        = (digitVal (ds ! k) * 10 ^ (length ds - Suc k)) * 10"
      by (simp add: nth_append)
  qed simp
  then show ?thesis
    by (simp add: decimal_def sum_distrib_right)
qed

text \<open>Reading the digits from the left gives the positional value.\<close>

lemma radixValue_decimal: "radixValue 10 ds = decimal ds"
proof (induction ds rule: rev_induct)
  case Nil
  show ?case by (simp add: radixValue_def decimal_def)
next
  case (snoc c ds)
  then show ?case by (simp add: radixValue_snoc decimal_snoc)
qed

text \<open>Number on a maximal run of digits is the double of its decimal value.\<close>

lemma Number_run:
  "m \<in> set (digitRuns s) \<Longrightarrow> stringToNumber m = natNumber (decimal m)"
  using digitRuns_digits [of m s] by (simp add: stringToNumber_digits radixValue_decimal)

lemma sum_of_matches:
  "foldl jsadd (Fin 0) (map stringToNumber (matchDigits s))
     = foldl jsadd (Fin 0) (map (\<lambda>m. natNumber (decimal m)) (digitRuns s))"
proof -
  have "map stringToNumber (digitRuns s) = map (\<lambda>m. natNumber (decimal m)) (digitRuns s)"
    by (rule map_cong) (simp_all add: Number_run)
  then show ?thesis by (simp only: matchDigits_digitRuns)
qed

section \<open>The fuel of a trip\<close>

lemma foldl_jsadd_exact:
  "a + sum_list (map f ms) < 2 ^ 53 \<Longrightarrow>
     foldl jsadd (Fin (of_nat a)) (map (\<lambda>m. natNumber (f m)) ms)
       = Fin (of_nat (a + sum_list (map f ms)))"
proof (induction ms arbitrary: a)
  case Nil
  show ?case by simp
next
  case (Cons m ms)
  from Cons.prems have small: "f m < 2 ^ 53" "a + f m < 2 ^ 53" by simp_all
  have "jsadd (Fin (of_nat a)) (natNumber (f m)) = Fin (of_nat (a + f m))"
    using small by (simp only: natNumber_exact jsadd_nat)
  moreover have "(a + f m) + sum_list (map f ms) < 2 ^ 53"
    using Cons.prems by (simp add: add.assoc)
  ultimately show ?case
    using Cons.IH [of "a + f m"] by (simp add: add.assoc)
qed

lemma tripFuel_numeric: "Number v \<noteq> NaN \<Longrightarrow> tripFuel v = Inr (Number v)"
  by (cases v) (auto simp: tripFuel_def isNaN_def stringToNumber_def trimWS_def)

lemma tripFuel_text:
  assumes "Number (Str s) = NaN"
  shows "tripFuel (Str s)
           = Inr (foldl jsadd (Fin 0) (map (\<lambda>m. natNumber (decimal m)) (digitRuns s)))"
proof -
  have "s \<noteq> []" using assms by (auto simp: stringToNumber_def trimWS_def)
  with assms show ?thesis
    using sum_of_matches [of s] by (auto simp: tripFuel_def isNaN_def Let_def)
qed

lemma tripFuel_text_exact:
  assumes "Number (Str s) = NaN" and "sum_list (map decimal (digitRuns s)) < 2 ^ 53"
  shows "tripFuel (Str s) = Inr (Fin (of_nat (sum_list (map decimal (digitRuns s)))))"
  using foldl_jsadd_exact [of 0 decimal "digitRuns s"] assms(2)
  by (simp add: tripFuel_text [OF assms(1)])

lemma tripFuel_object: "Number (Obj s) = NaN \<Longrightarrow> tripFuel (Obj s) = Inl TypeError"
  by (simp add: tripFuel_def isNaN_def)

section \<open>Evaluating the conversions\<close>

text \<open>
  The conversions are evaluated by rewriting with their definitions. Three values of
  \<^verbatim>\<open>Number\<close> that are no integers below \<open>2^53\<close>: \<^verbatim>\<open>1e400\<close> overflows,
  \<^verbatim>\<open>0.1\<close> is rounded, and so is \<open>2^53 + 1\<close>.
\<close>

lemmas parse_simps = lit_Nil lit_Cons stringToNumber_def trimWS_def isWhiteSpace_def unsignedDecimal_def
  isDigit_iff exponentPart_def signedInteger_def radixValue_def digitVal_def cu_def
  radixLiteral_def isHexDigit_def isOctDigit_def isBinDigit_def

lemmas runs_simps = lit_Nil lit_Cons digitRuns_Cons digitRuns_Nil isDigit_iff cu_def
  radixValue_decimal [symmetric] radixValue_def digitVal_def

lemmas round_simps = decimalNumber_def natNumber_def roundRatio_def double_def
  significand_def roundQuot_def binade_def binadeFrom_def pow2_def compute_floorlog

lemma fuel_500: "tripFuel (Str (lit ''500'')) = Inr (Fin 500)"
proof -
  have "Number (Str (lit ''500'')) = natNumber 500" by (simp add: parse_simps natNumber_def)
  then have "Number (Str (lit ''500'')) = Fin 500" by (simp add: natNumber_exact)
  then show ?thesis by (simp add: tripFuel_numeric)
qed

lemma fuel_note: "tripFuel (Str (lit ''2 liters @100 plus 50 toll note'')) = Inr (Fin 152)"
proof -
  have n: "Number (Str (lit ''2 liters @100 plus 50 toll note'')) = NaN"
    by (simp add: parse_simps)
  have r: "map decimal (digitRuns (lit ''2 liters @100 plus 50 toll note'')) = [2, 100, 50]"
    by (simp add: runs_simps)
  show ?thesis using tripFuel_text_exact [OF n] by (simp add: r)
qed

lemma fuel_1x50: "tripFuel (Str (lit ''1 x 50'')) = Inr (Fin 51)"
proof -
  have n: "Number (Str (lit ''1 x 50'')) = NaN"
    by (simp add: parse_simps)
  have r: "map decimal (digitRuns (lit ''1 x 50'')) = [1, 50]"
    by (simp add: runs_simps)
  show ?thesis using tripFuel_text_exact [OF n] by (simp add: r)
qed

lemma fuel_300: "tripFuel (Str (lit ''300'')) = Inr (Fin 300)"
proof -
  have "Number (Str (lit ''300'')) = natNumber 300" by (simp add: parse_simps natNumber_def)
  then have "Number (Str (lit ''300'')) = Fin 300" by (simp add: natNumber_exact)
  then show ?thesis by (simp add: tripFuel_numeric)
qed

lemma floorlog_eqI:
  assumes "2 ^ (w - 1) \<le> x" and "x < 2 ^ w" and "0 < w"
  shows "floorlog 2 x = w"
proof (rule antisym)
  show "floorlog 2 x \<le> w" using assms(2) by (simp add: floorlog_le_iff)
  show "w \<le> floorlog 2 x" using assms(1) by (intro floorlog_geI) simp_all
qed

lemma parse_1e400: "Number (Str (lit ''1e400'')) = decimalNumber 1 400"
  by (simp add: parse_simps)

lemma floorlog_1e400: "floorlog 2 (10 ^ 400) = 1329"
  by (rule floorlog_eqI) simp_all

lemma binade_1e400: "binade (10 ^ 400) 1 = 1328"
  using floorlog_1e400 by (simp add: binade_def binadeFrom_def floorlog_one nat_power_eq)

lemma Number_1e400: "Number (Str (lit ''1e400'')) = PInf"
proof -
  have r: "decimalNumber 1 400 = roundRatio True (10 ^ 400) 1"
    unfolding decimalNumber_def by simp
  show ?thesis
    unfolding parse_1e400 r roundRatio_def binade_1e400
    by (simp add: double_def significand_def roundQuot_def pow2_def)
qed

lemma Number_tenth:
  "Number (Str (lit ''0.1'')) = Fin (3602879701896397 / 36028797018963968)"
proof -
  have p: "Number (Str (lit ''0.1'')) = decimalNumber 1 (- 1)"
    by (simp add: parse_simps)
  show ?thesis unfolding p by (simp add: round_simps)
qed

lemma natNumber_2_53_1: "natNumber 9007199254740993 = Fin 9007199254740992"
  by (simp add: round_simps)

section \<open>Fuel parsing and the totals\<close>

text \<open>
  Claim C3, as amended. The fuel of a trip is 0 when \<^verbatim>\<open>fuelAmount\<close> is absent and
  the number itself when \<^verbatim>\<open>fuelAmount\<close> converts to a number. Otherwise, for a
  text, it is the sum of its maximal runs of digits, each read as a decimal integer
  and made a double by \<^verbatim>\<open>Number\<close>, added from the left in double arithmetic; this
  is the exact integer sum whenever that sum is below \<open>2^53\<close>. \<^verbatim>\<open>"500"\<close> gives 500,
  \<^verbatim>\<open>"2 liters @100 plus 50 toll note"\<close> gives 152 and \<^verbatim>\<open>undefined\<close> gives 0.
\<close>

theorem fuel_parsing_policy:
  "(trip ''fuelAmount'' = None \<longrightarrow> tripFuel (field trip ''fuelAmount'') = Inr (Fin 0))
   \<and> (Number v \<noteq> NaN \<longrightarrow> tripFuel v = Inr (Number v))
   \<and> (Number (Str s) = NaN \<longrightarrow>
        tripFuel (Str s)
          = Inr (foldl jsadd (Fin 0) (map (\<lambda>m. natNumber (decimal m)) (digitRuns s))))
   \<and> (Number (Str s) = NaN \<and> sum_list (map decimal (digitRuns s)) < 2 ^ 53 \<longrightarrow>
        tripFuel (Str s) = Inr (Fin (of_nat (sum_list (map decimal (digitRuns s))))))
   \<and> tripFuel (Str (lit ''500'')) = Inr (Fin 500)
   \<and> tripFuel (Str (lit ''2 liters @100 plus 50 toll note'')) = Inr (Fin 152)
   \<and> tripFuel Undefined = Inr (Fin 0)"
proof -
  have absent: "trip ''fuelAmount'' = None \<longrightarrow> tripFuel (field trip ''fuelAmount'') = Inr (Fin 0)"
    by (simp add: field_def tripFuel_def)
  have e3: "tripFuel Undefined = Inr (Fin 0)" by (simp add: tripFuel_def)
  have numeric: "Number v \<noteq> NaN \<longrightarrow> tripFuel v = Inr (Number v)"
    by (simp add: tripFuel_numeric)
  have free_text: "Number (Str s) = NaN \<longrightarrow>
        tripFuel (Str s)
          = Inr (foldl jsadd (Fin 0) (map (\<lambda>m. natNumber (decimal m)) (digitRuns s)))"
    using tripFuel_text [of s] by blast
  have exact: "Number (Str s) = NaN \<and> sum_list (map decimal (digitRuns s)) < 2 ^ 53 \<longrightarrow>
        tripFuel (Str s) = Inr (Fin (of_nat (sum_list (map decimal (digitRuns s)))))"
    using tripFuel_text_exact [of s] by blast
  from absent numeric free_text exact fuel_500 fuel_note e3 show ?thesis
    by blast
qed

text \<open>
  The cases at a trip without \<^verbatim>\<open>fuelAmount\<close>, at the numeric texts
  \<^verbatim>\<open>" 1.5e2"\<close> and \<^verbatim>\<open>"1e400"\<close>, at the free text \<^verbatim>\<open>"1 x 50"\<close> and at the
  text of the data model, a rupee sign (U+20B9) before \<^verbatim>\<open>"500 + 2 liters@100"\<close>.
\<close>

theorem fuel_parsing_policy_witness:
  "trip3 ''fuelAmount'' = None \<and> tripFuel (field trip3 ''fuelAmount'') = Inr (Fin 0)
   \<and> Number (Str (lit '' 1.5e2'')) \<noteq> NaN \<and> tripFuel (Str (lit '' 1.5e2'')) = Inr (Fin 150)
   \<and> Number (Str (lit ''1e400'')) \<noteq> NaN \<and> tripFuel (Str (lit ''1e400'')) = Inr PInf
   \<and> Number (Str (lit ''1 x 50'')) = NaN \<and> tripFuel (Str (lit ''1 x 50'')) = Inr (Fin 51)
   \<and> Number (Str (8377 # lit ''500 + 2 liters@100'')) = NaN
   \<and> sum_list (map decimal (digitRuns (8377 # lit ''500 + 2 liters@100''))) < 2 ^ 53
   \<and> tripFuel (Str (8377 # lit ''500 + 2 liters@100'')) = Inr (Fin 602)"
proof -
  have h1: "trip3 ''fuelAmount'' = None" by (simp add: trip3_def)
  have "Number (Str (lit '' 1.5e2'')) = decimalNumber 15 1" by (simp add: parse_simps)
  then have n2: "Number (Str (lit '' 1.5e2'')) = Fin 150" by (simp add: round_simps)
  then have h2: "Number (Str (lit '' 1.5e2'')) \<noteq> NaN" by simp
  have h2': "Number (Str (lit ''1e400'')) \<noteq> NaN" by (simp only: Number_1e400) simp
  have h3: "Number (Str (lit ''1 x 50'')) = NaN" by (simp add: parse_simps)
  have r3: "map decimal (digitRuns (lit ''1 x 50'')) = [1, 50]" by (simp add: runs_simps)
  have h4: "Number (Str (8377 # lit ''500 + 2 liters@100'')) = NaN" by (simp add: parse_simps)
  have r4: "map decimal (digitRuns (8377 # lit ''500 + 2 liters@100'')) = [500, 2, 100]"
    by (simp add: runs_simps)
  have b3: "sum_list (map decimal (digitRuns (lit ''1 x 50''))) < 2 ^ 53"
    and b4: "sum_list (map decimal (digitRuns (8377 # lit ''500 + 2 liters@100''))) < 2 ^ 53"
    by (simp_all add: r3 r4)
  from fuel_parsing_policy [of trip3 "Str (lit '' 1.5e2'')" "lit ''1 x 50''"] h1 h2 h3 b3
  have a: "tripFuel (field trip3 ''fuelAmount'') = Inr (Fin 0)"
    and b: "tripFuel (Str (lit '' 1.5e2'')) = Inr (Number (Str (lit '' 1.5e2'')))"
    and c: "tripFuel (Str (lit ''1 x 50''))
        = Inr (Fin (of_nat (sum_list (map decimal (digitRuns (lit ''1 x 50''))))))"
    by blast+
  from fuel_parsing_policy [of trip3 "Str (lit ''1e400'')" "8377 # lit ''500 + 2 liters@100''"]
    h2' h4 b4
  have d: "tripFuel (Str (lit ''1e400'')) = Inr (Number (Str (lit ''1e400'')))"
    and e: "tripFuel (Str (8377 # lit ''500 + 2 liters@100''))
        = Inr (Fin (of_nat (sum_list (map decimal (digitRuns (8377 # lit ''500 + 2 liters@100''))))))"
    by blast+
  show ?thesis
    unfolding a b c d e n2 Number_1e400 r3 r4 using h1 h3 h4 by simp
qed

text \<open>
  The claim as it stands, the sum of the runs as integers, fails for a run that is no
  double: the run of \<^verbatim>\<open>"ref 9007199254740993"\<close> is \<open>2^53 + 1\<close> and the fuel is
  \<open>2^53\<close>.
\<close>

theorem fuel_big_run:
  "Number (Str (lit ''ref 9007199254740993'')) = NaN
   \<and> digitRuns (lit ''ref 9007199254740993'') = [lit ''9007199254740993'']
   \<and> decimal (lit ''9007199254740993'') = 9007199254740993
   \<and> tripFuel (Str (lit ''ref 9007199254740993'')) = Inr (Fin 9007199254740992)
   \<and> Fin 9007199254740992 \<noteq> Fin (of_nat (decimal (lit ''9007199254740993'')))"
proof -
  have n: "Number (Str (lit ''ref 9007199254740993'')) = NaN" by (simp add: parse_simps)
  have r: "digitRuns (lit ''ref 9007199254740993'') = [lit ''9007199254740993'']"
    by (simp add: runs_simps)
  have v: "decimal (lit ''9007199254740993'') = 9007199254740993"
    by (simp add: runs_simps)
  note d = natNumber_2_53_1
  have s: "jsadd (Fin 0) (Fin 9007199254740992) = Fin 9007199254740992"
    by (simp add: round64_def round_simps)
  have "tripFuel (Str (lit ''ref 9007199254740993'')) = Inr (Fin 9007199254740992)"
    unfolding tripFuel_text [OF n] r by (simp only: list.map foldl.simps v d s)
  with n r v show ?thesis by simp
qed

lemma findDocs_Nil: "findDocs m [] = []"
  by (simp add: findDocs_def)

lemma scenario_visible: "map snd (findDocs (tripMatch None) scenarioTrips) = [trip1, trip2]"
proof -
  have "field trip1 ''isDriverDeleted'' = Undefined" "field trip2 ''isDriverDeleted'' = Undefined"
    by (simp_all add: field_def trip1_def trip2_def)
  then show ?thesis
    by (simp add: findDocs_def tripMatch_def scenarioTrips_def)
qed

lemma scenario_fields:
  "field trip1 ''tripAmount'' = Num (Fin 1000)" "field trip1 ''fuelAmount'' = Str (lit ''300'')"
  "field trip1 ''tolls'' = Num (Fin 0)" "field trip1 ''parkingCharges'' = Undefined"
  "field trip1 ''driverBeta'' = Undefined"
  "field trip2 ''tripAmount'' = Num (Fin 2000)" "field trip2 ''fuelAmount'' = Str (lit ''1 x 50'')"
  "field trip2 ''tolls'' = Num (Fin 20)" "field trip2 ''parkingCharges'' = Undefined"
  "field trip2 ''driverBeta'' = Undefined"
  by (simp_all add: field_def trip1_def trip2_def)

lemma scenario_totals:
  "computeStats [trip1, trip2] [] [] =
       Inr \<lparr>totalTrips = 2, totalTripAmount = Fin 3000, totalExpenses = Fin 371,
            totalMaintenance = Fin 0, totalAds = Fin 0, totalProfit = Fin 2629\<rparr>"
  by (simp add: computeStats_def tripStep_def orZero_def jsor_def jssub_def Let_def scenario_fields
      fuel_300 fuel_1x50)

text \<open>
  Claim C4, as amended. For the two visible trips with \<^verbatim>\<open>tripAmount\<close> 1000 and 2000,
  \<^verbatim>\<open>fuelAmount\<close> \<^verbatim>\<open>"300"\<close> and \<^verbatim>\<open>"1 x 50"\<close>, tolls 0 and 20 and no maintenance or
  ad records, the aggregation returns \<^verbatim>\<open>totalTripAmount\<close> 3000, a fuel of 300 and 51
  (both runs of \<^verbatim>\<open>"1 x 50"\<close> are summed), \<^verbatim>\<open>totalExpenses\<close> 371 and
  \<^verbatim>\<open>totalProfit\<close> 2629.
\<close>

theorem stats_scenario:
  "getStats objectId scenarioTrips [] [] admin1 =
       (200, StatsJson \<lparr>totalTrips = 2, totalTripAmount = Fin 3000, totalExpenses = Fin 371,
                         totalMaintenance = Fin 0, totalAds = Fin 0, totalProfit = Fin 2629\<rparr>)
   \<and> tripFuel (field trip1 ''fuelAmount'') = Inr (Fin 300)
   \<and> tripFuel (field trip2 ''fuelAmount'') = Inr (Fin 51)"
  by (simp add: getStats_def statsOf_def admin1_def Let_def scenario_visible scenario_totals
      findDocs_Nil scenario_fields fuel_300 fuel_1x50)

text \<open>
  The totals of the claim as it stands, 370 and 2630, are not what the aggregation
  returns: the fuel of \<^verbatim>\<open>"1 x 50"\<close> is 51, not 50.
\<close>

theorem stats_scenario_counterexample:
  "tripFuel (field trip2 ''fuelAmount'') = Inr (Fin 51)
   \<and> getStats hexObjectId scenarioTrips [] [] admin1 \<noteq>
       (200, StatsJson \<lparr>totalTrips = 2, totalTripAmount = Fin 3000, totalExpenses = Fin 370,
                         totalMaintenance = Fin 0, totalAds = Fin 0, totalProfit = Fin 2630\<rparr>)"
  by (simp add: getStats_def statsOf_def admin1_def Let_def scenario_visible scenario_totals
      findDocs_Nil scenario_fields fuel_1x50)

section \<open>The fleet in the store\<close>

lemma fleet_t2: "findById fleetTrips (lit ''t2'') = Some trip2"
  by (simp add: findById_def fleetTrips_def)

lemma fleet_t1: "findById fleetTrips (lit ''t1'') = Some trip1"
  by (simp add: findById_def fleetTrips_def)

lemma fleet_t3: "findById fleetTrips (lit ''t3'') = Some trip3"
  by (simp add: findById_def fleetTrips_def)

lemma fleet_t0: "findById fleetTrips (lit ''t0'') = None"
  by (simp add: findById_def fleetTrips_def)

lemma trip_owners:
  "String_js txt (field trip1 ''driverId'') = (lit ''d1'')"
  "String_js txt (field trip2 ''driverId'') = (lit ''d2'')"
  "String_js txt (field trip3 ''driverId'') = (lit ''d1'')"
  by (simp_all add: field_def trip1_def trip2_def trip3_def)

lemma sample_users:
  "role driver1 = lit ''driver''" "uid driver1 = (lit ''d1'')"
  "role driver2 = lit ''driver''" "uid driver2 = (lit ''d2'')"
  "role admin1 = lit ''admin''" "uid admin1 = (lit ''a1'')"
  by (simp_all add: driver1_def driver2_def admin1_def)

section \<open>Ownership\<close>

text \<open>
  Claim C1, as amended. For a caller with role driver and a trip whose \<^verbatim>\<open>driverId\<close>
  is not the caller's id, the single-trip fetch, update and delete answer 403 with the
  message ``Forbidden'' and leave the store as it was. (A trip that does not exist is
  answered with 404, so the two cases can be told apart.)
\<close>

theorem foreign_trip_forbidden:
  assumes "role u = lit ''driver''"
    and "findById Trip tid = Some trip"
    and "String_js txt (field trip ''driverId'') \<noteq> uid u"
  shows "getTrip txt Trip u tid includeDeleted = (403, MessageJson ''Forbidden'')
       \<and> updateTrip txt Driver Vehicle Trip u tid reqBody = ((403, MessageJson ''Forbidden''), Trip)
       \<and> deleteTrip txt now Trip u tid queryHard = ((403, MessageJson ''Forbidden''), Trip)"
  using assms by (simp add: getTrip_def updateTrip_def deleteTrip_def notOwner_def)

theorem foreign_trip_forbidden_witness:
  "role driver1 = lit ''driver'' \<and> findById fleetTrips (lit ''t2'') = Some trip2
   \<and> String_js sampleText (field trip2 ''driverId'') \<noteq> uid driver1
   \<and> getTrip sampleText fleetTrips driver1 (lit ''t2'') None = (403, MessageJson ''Forbidden'')
   \<and> updateTrip sampleText sampleDrivers sampleVehicles fleetTrips driver1 (lit ''t2'')
        [''tolls'' \<mapsto> Num (Fin 5)] = ((403, MessageJson ''Forbidden''), fleetTrips)
   \<and> deleteTrip sampleText 9 fleetTrips driver1 (lit ''t2'') (Some (lit ''true''))
        = ((403, MessageJson ''Forbidden''), fleetTrips)"
proof -
  have h1: "role driver1 = lit ''driver''" by (simp add: sample_users)
  have h3: "String_js sampleText (field trip2 ''driverId'') \<noteq> uid driver1"
    by (simp add: trip_owners sample_users)
  from foreign_trip_forbidden [OF h1 fleet_t2 h3] h1 fleet_t2 h3 show ?thesis by simp
qed

text \<open>
  The claim as it stands asks for 404 and for a response that cannot be told from the
  one for a missing trip. Driver \<open>d1\<close> asking for the trip \<open>t2\<close> of driver \<open>d2\<close> gets
  403, and another response than for the missing \<open>t0\<close>.
\<close>

theorem foreign_trip_not_404:
  "fst (getTrip sampleText fleetTrips driver1 (lit ''t2'') None) = 403
   \<and> fst (getTrip sampleText fleetTrips driver1 (lit ''t2'') None) \<noteq> 404
   \<and> getTrip sampleText fleetTrips driver1 (lit ''t2'') None \<noteq> getTrip sampleText fleetTrips driver1 (lit ''t0'') None
   \<and> fst (fst (updateTrip sampleText sampleDrivers sampleVehicles fleetTrips driver1 (lit ''t2'')
                  [''tolls'' \<mapsto> Num (Fin 5)])) = 403
   \<and> fst (fst (deleteTrip sampleText 9 fleetTrips driver1 (lit ''t2'') None)) = 403"
  by (simp add: getTrip_def updateTrip_def deleteTrip_def notOwner_def fleet_t2 fleet_t0
      trip_owners sample_users)

section \<open>Soft delete and restore\<close>

lemma driver_delete_active:
  assumes "role u = lit ''driver''"
    and "findById Trip tid = Some trip"
    and "String_js txt (field trip ''driverId'') = uid u"
    and "\<not> truthy (field trip ''isDriverDeleted'')"
  shows "deleteTrip txt now Trip u tid queryHard =
           ((200, MessageTripJson ''Trip marked deleted by driver'' tid
                    (trip(''isDriverDeleted'' \<mapsto> Bool True, ''driverDeletedAt'' \<mapsto> DateV now,
                          ''driverDeletedBy'' \<mapsto> Str (uid u)))),
            save tid (trip(''isDriverDeleted'' \<mapsto> Bool True, ''driverDeletedAt'' \<mapsto> DateV now,
                           ''driverDeletedBy'' \<mapsto> Str (uid u))) Trip)"
  using assms by (simp add: deleteTrip_def Let_def)

lemma driver_delete_deleted:
  assumes "role u = lit ''driver''"
    and "findById Trip tid = Some trip"
    and "String_js txt (field trip ''driverId'') = uid u"
    and "truthy (field trip ''isDriverDeleted'')"
  shows "deleteTrip txt now Trip u tid queryHard =
           ((200, MessageTripJson ''Trip marked deleted by driver'' tid trip), Trip)"
  using assms by (simp add: deleteTrip_def)

lemma admin_delete_deleted:
  assumes "role u \<noteq> lit ''driver''"
    and "findById Trip tid = Some trip"
    and "queryHard \<noteq> Some (lit ''true'')"
    and "truthy (field trip ''isDriverDeleted'')"
  shows "deleteTrip txt now Trip u tid queryHard =
           ((200, MessageTripJson ''Trip soft-deleted by admin'' tid trip), Trip)"
  using assms by (simp add: deleteTrip_def save_same)

text \<open>
  Claim C5. When a driver deletes a trip of their own, whatever the \<^verbatim>\<open>hard\<close> query
  parameter says, the answer is 200, the trip is still in the store under its id and is
  marked deleted (with the time and the driver's id when it was not yet marked), and no
  document is added to or removed from the store.
\<close>

theorem driver_delete_is_soft:
  assumes "role u = lit ''driver''"
    and "findById Trip tid = Some trip"
    and "String_js txt (field trip ''driverId'') = uid u"
  shows "\<exists>trip' Trip'. deleteTrip txt now Trip u tid queryHard =
            ((200, MessageTripJson ''Trip marked deleted by driver'' tid trip'), Trip')
          \<and> findById Trip' tid = Some trip'
          \<and> truthy (field trip' ''isDriverDeleted'')
          \<and> (\<not> truthy (field trip ''isDriverDeleted'') \<longrightarrow>
                field trip' ''isDriverDeleted'' = Bool True
              \<and> field trip' ''driverDeletedAt'' = DateV now
              \<and> field trip' ''driverDeletedBy'' = Str (uid u))
          \<and> map fst Trip' = map fst Trip
          \<and> (\<forall>i. i \<noteq> tid \<longrightarrow> findById Trip' i = findById Trip i)"
proof (cases "truthy (field trip ''isDriverDeleted'')")
  case True
  with assms show ?thesis by (simp add: driver_delete_deleted)
next
  case False
  with assms show ?thesis
    by (simp add: driver_delete_active findById_save field_upd keys_save)
qed

theorem driver_delete_is_soft_witness:
  "role driver1 = lit ''driver'' \<and> findById fleetTrips (lit ''t1'') = Some trip1
   \<and> String_js sampleText (field trip1 ''driverId'') = uid driver1
   \<and> fst (fst (deleteTrip sampleText 9 fleetTrips driver1 (lit ''t1'') (Some (lit ''true'')))) = 200
   \<and> map fst (snd (deleteTrip sampleText 9 fleetTrips driver1 (lit ''t1'') (Some (lit ''true''))))
        = [(lit ''t1''), (lit ''t3''), (lit ''t2'')]
   \<and> findById (snd (deleteTrip sampleText 9 fleetTrips driver1 (lit ''t1'') (Some (lit ''true'')))) (lit ''t1'')
        \<noteq> None"
proof -
  have h1: "role driver1 = lit ''driver''" by (simp add: sample_users)
  have h3: "String_js sampleText (field trip1 ''driverId'') = uid driver1"
    by (simp add: trip_owners sample_users)
  from driver_delete_is_soft [OF h1 fleet_t1 h3, of 9 "Some (lit ''true'')"]
  obtain trip' Trip' where
    "deleteTrip sampleText 9 fleetTrips driver1 (lit ''t1'') (Some (lit ''true'')) =
       ((200, MessageTripJson ''Trip marked deleted by driver'' (lit ''t1'') trip'), Trip')"
    "findById Trip' (lit ''t1'') = Some trip'" "map fst Trip' = map fst fleetTrips"
    by blast
  with h1 fleet_t1 h3 show ?thesis by (simp add: fleetTrips_def)
qed

text \<open>
  Claim C6. Deleting a trip that is already marked deleted, by its driver or by an
  administrator without \<^verbatim>\<open>hard=true\<close>, answers 200 with the trip as it was and
  leaves the store unchanged, so \<^verbatim>\<open>isDriverDeleted\<close>, \<^verbatim>\<open>driverDeletedAt\<close> and
  \<^verbatim>\<open>driverDeletedBy\<close> keep their values. A driver's second delete of a trip returns
  the store and the trip that the first delete left.
\<close>

theorem soft_delete_idempotent:
  assumes "findById Trip tid = Some trip"
  shows "(truthy (field trip ''isDriverDeleted'') \<and> role u = lit ''driver''
            \<and> String_js txt (field trip ''driverId'') = uid u \<longrightarrow>
            deleteTrip txt now Trip u tid queryHard =
              ((200, MessageTripJson ''Trip marked deleted by driver'' tid trip), Trip))
       \<and> (truthy (field trip ''isDriverDeleted'') \<and> role u \<noteq> lit ''driver''
            \<and> queryHard \<noteq> Some (lit ''true'') \<longrightarrow>
            deleteTrip txt now Trip u tid queryHard =
              ((200, MessageTripJson ''Trip soft-deleted by admin'' tid trip), Trip))
       \<and> (role u = lit ''driver'' \<and> String_js txt (field trip ''driverId'') = uid u \<longrightarrow>
            (\<exists>r trip' Trip'.
               deleteTrip txt now Trip u tid queryHard = (r, Trip')
             \<and> findById Trip' tid = Some trip'
             \<and> deleteTrip txt now' Trip' u tid queryHard' =
                 ((200, MessageTripJson ''Trip marked deleted by driver'' tid trip'), Trip')))"
proof (intro conjI impI)
  assume "truthy (field trip ''isDriverDeleted'') \<and> role u = lit ''driver''
            \<and> String_js txt (field trip ''driverId'') = uid u"
  with assms show "deleteTrip txt now Trip u tid queryHard =
              ((200, MessageTripJson ''Trip marked deleted by driver'' tid trip), Trip)"
    by (simp add: driver_delete_deleted)
next
  assume "truthy (field trip ''isDriverDeleted'') \<and> role u \<noteq> lit ''driver''
            \<and> queryHard \<noteq> Some (lit ''true'')"
  with assms show "deleteTrip txt now Trip u tid queryHard =
              ((200, MessageTripJson ''Trip soft-deleted by admin'' tid trip), Trip)"
    by (simp add: admin_delete_deleted)
next
  assume own: "role u = lit ''driver'' \<and> String_js txt (field trip ''driverId'') = uid u"
  show "\<exists>r trip' Trip'.
               deleteTrip txt now Trip u tid queryHard = (r, Trip')
             \<and> findById Trip' tid = Some trip'
             \<and> deleteTrip txt now' Trip' u tid queryHard' =
                 ((200, MessageTripJson ''Trip marked deleted by driver'' tid trip'), Trip')"
  proof (cases "truthy (field trip ''isDriverDeleted'')")
    case True
    with assms own show ?thesis by (simp add: driver_delete_deleted)
  next
    case False
    let ?t = "trip(''isDriverDeleted'' \<mapsto> Bool True, ''driverDeletedAt'' \<mapsto> DateV now,
                   ''driverDeletedBy'' \<mapsto> Str (uid u))"
    have found: "findById (save tid ?t Trip) tid = Some ?t" by (simp add: findById_save)
    have "deleteTrip txt now' (save tid ?t Trip) u tid queryHard' =
            ((200, MessageTripJson ''Trip marked deleted by driver'' tid ?t), save tid ?t Trip)"
      using own by (intro driver_delete_deleted found) (simp_all add: field_upd)
    with assms own False found show ?thesis by (simp add: driver_delete_active)
  qed
qed

theorem soft_delete_idempotent_witness:
  "findById fleetTrips (lit ''t3'') = Some trip3 \<and> truthy (field trip3 ''isDriverDeleted'')
   \<and> role driver1 = lit ''driver'' \<and> String_js sampleText (field trip3 ''driverId'') = uid driver1
   \<and> deleteTrip sampleText 9 fleetTrips driver1 (lit ''t3'') None =
       ((200, MessageTripJson ''Trip marked deleted by driver'' (lit ''t3'') trip3), fleetTrips)
   \<and> role admin1 \<noteq> lit ''driver''
   \<and> deleteTrip sampleText 9 fleetTrips admin1 (lit ''t3'') None =
       ((200, MessageTripJson ''Trip soft-deleted by admin'' (lit ''t3'') trip3), fleetTrips)"
proof -
  have h2: "truthy (field trip3 ''isDriverDeleted'')" by (simp add: field_def trip3_def)
  have h3: "role driver1 = lit ''driver''" "String_js sampleText (field trip3 ''driverId'') = uid driver1"
    "role admin1 \<noteq> lit ''driver''"
    by (simp_all add: trip_owners sample_users)
  from soft_delete_idempotent [OF fleet_t3, of driver1 sampleText 9 None] h2 h3
  have a: "deleteTrip sampleText 9 fleetTrips driver1 (lit ''t3'') None =
       ((200, MessageTripJson ''Trip marked deleted by driver'' (lit ''t3'') trip3), fleetTrips)"
    by blast
  from soft_delete_idempotent [OF fleet_t3, of admin1 sampleText 9 None] h2 h3
  have b: "deleteTrip sampleText 9 fleetTrips admin1 (lit ''t3'') None =
       ((200, MessageTripJson ''Trip soft-deleted by admin'' (lit ''t3'') trip3), fleetTrips)"
    by blast
  from a b h2 h3 fleet_t3 show ?thesis by simp
qed

text \<open>
  Claim C7. For a caller whose role is not admin the restore answers 403 and leaves the
  store unchanged. For an administrator and a trip that exists it answers 200 and saves
  the trip with \<^verbatim>\<open>isDriverDeleted\<close> false and \<^verbatim>\<open>driverDeletedAt\<close> and
  \<^verbatim>\<open>driverDeletedBy\<close> null, every other field as before.
\<close>

theorem restore_admin_only:
  "(role u \<noteq> lit ''admin'' \<longrightarrow> restoreTrip Trip u tid = ((403, MessageJson ''Admins only''), Trip))
 \<and> (role u = lit ''admin'' \<and> findById Trip tid = Some trip \<longrightarrow>
       (\<exists>trip'. restoreTrip Trip u tid =
                  ((200, MessageTripJson ''Trip restored'' tid trip'), save tid trip' Trip)
          \<and> findById (save tid trip' Trip) tid = Some trip'
          \<and> field trip' ''isDriverDeleted'' = Bool False
          \<and> field trip' ''driverDeletedAt'' = Null
          \<and> field trip' ''driverDeletedBy'' = Null
          \<and> (\<forall>k. k \<notin> {''isDriverDeleted'', ''driverDeletedAt'', ''driverDeletedBy''}
                \<longrightarrow> trip' k = trip k)))"
  by (simp add: restoreTrip_def Let_def findById_save field_upd)

theorem restore_admin_only_witness:
  "role driver1 \<noteq> lit ''admin''
   \<and> restoreTrip fleetTrips driver1 (lit ''t3'') = ((403, MessageJson ''Admins only''), fleetTrips)
   \<and> role admin1 = lit ''admin'' \<and> findById fleetTrips (lit ''t3'') = Some trip3
   \<and> fst (fst (restoreTrip fleetTrips admin1 (lit ''t3''))) = 200
   \<and> (\<exists>trip'. findById (snd (restoreTrip fleetTrips admin1 (lit ''t3''))) (lit ''t3'') = Some trip'
         \<and> field trip' ''isDriverDeleted'' = Bool False
         \<and> field trip' ''driverDeletedAt'' = Null
         \<and> field trip' ''driverDeletedBy'' = Null)"
proof -
  have h1: "role driver1 \<noteq> lit ''admin''" and h2: "role admin1 = lit ''admin''"
    by (simp_all add: sample_users)
  from restore_admin_only [of driver1 fleetTrips "(lit ''t3'')"] h1
  have a: "restoreTrip fleetTrips driver1 (lit ''t3'') = ((403, MessageJson ''Admins only''), fleetTrips)"
    by blast
  from restore_admin_only [of admin1 fleetTrips "(lit ''t3'')" trip3] h2 fleet_t3
  obtain trip' where
    "restoreTrip fleetTrips admin1 (lit ''t3'') =
       ((200, MessageTripJson ''Trip restored'' (lit ''t3'') trip'), save (lit ''t3'') trip' fleetTrips)"
    "findById (save (lit ''t3'') trip' fleetTrips) (lit ''t3'') = Some trip'"
    "field trip' ''isDriverDeleted'' = Bool False"
    "field trip' ''driverDeletedAt'' = Null"
    "field trip' ''driverDeletedBy'' = Null"
    by blast
  with a h1 h2 fleet_t3 show ?thesis by simp
qed

section \<open>Listing and statistics hide deleted trips\<close>

lemma tripMatch_deleted: "field d ''isDriverDeleted'' = Bool True \<Longrightarrow> \<not> tripMatch f d"
  by (simp add: tripMatch_def)

lemma listRows_rows:
  assumes "\<And>key rows. set (sortBy key rows) = set rows"
  shows "\<exists>rows. listRows sortBy Trip f querySort = (200, ListJson (length rows) 1 (length rows) rows)
           \<and> set rows = {(j, t) \<in> set Trip. tripMatch f t}"
proof -
  let ?sort = "case querySort of None \<Rightarrow> lit ''-createdAt''
               | Some q \<Rightarrow> if q = [] then lit ''-createdAt'' else q"
  let ?rows = "sortBy ?sort (findDocs (tripMatch f) Trip)"
  have "listRows sortBy Trip f querySort = (200, ListJson (length ?rows) 1 (length ?rows) ?rows)"
    by (simp add: listRows_def Let_def)
  moreover have "set ?rows = {(j, t) \<in> set Trip. tripMatch f t}"
    by (auto simp: assms findDocs_def)
  ultimately show ?thesis by blast
qed

lemma statsOf_deleted:
  assumes "field d ''isDriverDeleted'' = Bool True"
  shows "statsOf (xs @ (i, d) # ys) Maintenance Ad f = statsOf (xs @ ys) Maintenance Ad f"
proof -
  have "findDocs (tripMatch f) (xs @ (i, d) # ys) = findDocs (tripMatch f) (xs @ ys)"
    using tripMatch_deleted [OF assms] by (simp add: findDocs_def)
  then show ?thesis by (simp add: statsOf_def)
qed

text \<open>
  Claim C8. A trip with \<^verbatim>\<open>isDriverDeleted = true\<close> is in no row of the listing, for
  any caller, and the statistics of a store are those of the store without that trip.
  For an administrator, and for a driver whose id makes an ObjectId, the listing answers
  200 with the trips of the store that match the caller's query, which the sort only
  reorders; for a driver whose id makes the ObjectId constructor throw it answers 500
  and has no rows.
\<close>

theorem deleted_trips_hidden:
  assumes "field d ''isDriverDeleted'' = Bool True"
    and "\<And>key rows. set (sortBy key rows) = set rows"
  shows "(role u \<noteq> lit ''driver'' \<longrightarrow>
            (\<exists>rows. listTrips objectId sortBy Trip u querySort
                       = (200, ListJson (length rows) 1 (length rows) rows)
               \<and> (i, d) \<notin> set rows
               \<and> set rows = {(j, t) \<in> set Trip. tripMatch None t}))
       \<and> (role u = lit ''driver'' \<and> objectId (uid u) = Some oid \<longrightarrow>
            (\<exists>rows. listTrips objectId sortBy Trip u querySort
                       = (200, ListJson (length rows) 1 (length rows) rows)
               \<and> (i, d) \<notin> set rows
               \<and> set rows = {(j, t) \<in> set Trip. tripMatch (Some oid) t}))
       \<and> (role u = lit ''driver'' \<and> objectId (uid u) = None \<longrightarrow>
            listTrips objectId sortBy Trip u querySort = (500, ServerError BSONError))
       \<and> getStats objectId (xs @ (i, d) # ys) Maintenance Ad u
            = getStats objectId (xs @ ys) Maintenance Ad u"
proof (intro conjI impI)
  assume "role u \<noteq> lit ''driver''"
  then have "listTrips objectId sortBy Trip u querySort = listRows sortBy Trip None querySort"
    by (simp add: listTrips_def)
  with listRows_rows [where sortBy = sortBy and Trip = Trip and f = None and querySort = querySort, OF assms(2)] tripMatch_deleted [OF assms(1), of None]
  show "\<exists>rows. listTrips objectId sortBy Trip u querySort
                       = (200, ListJson (length rows) 1 (length rows) rows)
               \<and> (i, d) \<notin> set rows
               \<and> set rows = {(j, t) \<in> set Trip. tripMatch None t}"
    by auto
next
  assume "role u = lit ''driver'' \<and> objectId (uid u) = Some oid"
  then have "listTrips objectId sortBy Trip u querySort = listRows sortBy Trip (Some oid) querySort"
    by (simp add: listTrips_def)
  with listRows_rows [where sortBy = sortBy and Trip = Trip and f = "Some oid" and querySort = querySort, OF assms(2)]
    tripMatch_deleted [OF assms(1), of "Some oid"]
  show "\<exists>rows. listTrips objectId sortBy Trip u querySort
                       = (200, ListJson (length rows) 1 (length rows) rows)
               \<and> (i, d) \<notin> set rows
               \<and> set rows = {(j, t) \<in> set Trip. tripMatch (Some oid) t}"
    by auto
next
  assume "role u = lit ''driver'' \<and> objectId (uid u) = None"
  then show "listTrips objectId sortBy Trip u querySort = (500, ServerError BSONError)"
    by (simp add: listTrips_def)
next
  show "getStats objectId (xs @ (i, d) # ys) Maintenance Ad u
            = getStats objectId (xs @ ys) Maintenance Ad u"
    by (simp add: getStats_def statsOf_deleted [OF assms(1)] split: option.splits)
qed

lemma hexObjectId_driver3: "hexObjectId (uid driver3) = Some (uid driver3)"
  by (simp add: hexObjectId_def driver3_def lit_Cons lit_Nil cu_def isHexDigit_def lowerHex_def)

lemma hexObjectId_driver1: "hexObjectId (uid driver1) = None"
  by (simp add: hexObjectId_def driver1_def lit_Cons lit_Nil)

text \<open>
  The driver with the ObjectId \<^verbatim>\<open>64b7f0c2a1d3e4f5a6b7c8d9\<close> and the administrator list
  a store that holds a deleted trip of that driver; the driver \<open>d1\<close>, whose id is no
  ObjectId, gets 500.
\<close>

theorem deleted_trips_hidden_witness:
  "field trip5 ''isDriverDeleted'' = Bool True
   \<and> (\<forall>key rows. set (storeOrder key rows) = set rows)
   \<and> role driver3 = lit ''driver'' \<and> hexObjectId (uid driver3) = Some (uid driver3)
   \<and> (\<exists>rows. listTrips hexObjectId storeOrder hexTrips driver3 None
                = (200, ListJson (length rows) 1 (length rows) rows)
         \<and> (lit ''64b7f0c2a1d3e4f5a6b70002'', trip5) \<notin> set rows)
   \<and> role admin1 \<noteq> lit ''driver''
   \<and> (\<exists>rows. listTrips hexObjectId storeOrder hexTrips admin1 None
                = (200, ListJson (length rows) 1 (length rows) rows)
         \<and> (lit ''64b7f0c2a1d3e4f5a6b70002'', trip5) \<notin> set rows)
   \<and> role driver1 = lit ''driver'' \<and> hexObjectId (uid driver1) = None
   \<and> listTrips hexObjectId storeOrder hexTrips driver1 None = (500, ServerError BSONError)
   \<and> getStats hexObjectId hexTrips [] [] driver3
        = getStats hexObjectId [(lit ''64b7f0c2a1d3e4f5a6b70001'', trip4)] [] [] driver3"
proof -
  have h1: "field trip5 ''isDriverDeleted'' = Bool True" by (simp add: field_def trip5_def)
  have h2: "\<And>key rows. set (storeOrder key rows) = set rows" by (simp add: storeOrder_def)
  have r3: "role driver3 = lit ''driver''" by (simp add: driver3_def)
  have r1: "role driver1 = lit ''driver''" and ra: "role admin1 \<noteq> lit ''driver''"
    by (simp_all add: sample_users)
  have store: "hexTrips = [(lit ''64b7f0c2a1d3e4f5a6b70001'', trip4)]
      @ (lit ''64b7f0c2a1d3e4f5a6b70002'', trip5) # []"
    by (simp add: hexTrips_def)
  note inst = deleted_trips_hidden [where sortBy = storeOrder and d = trip5
      and objectId = hexObjectId and Trip = hexTrips and querySort = None
      and i = "lit ''64b7f0c2a1d3e4f5a6b70002''", OF h1 h2]
  from inst [where u = driver3 and oid = "uid driver3"] r3 hexObjectId_driver3
  have a: "\<exists>rows. listTrips hexObjectId storeOrder hexTrips driver3 None
                = (200, ListJson (length rows) 1 (length rows) rows)
         \<and> (lit ''64b7f0c2a1d3e4f5a6b70002'', trip5) \<notin> set rows"
    by blast
  from inst [where u = admin1] ra
  have b: "\<exists>rows. listTrips hexObjectId storeOrder hexTrips admin1 None
                = (200, ListJson (length rows) 1 (length rows) rows)
         \<and> (lit ''64b7f0c2a1d3e4f5a6b70002'', trip5) \<notin> set rows"
    by blast
  from inst [where u = driver1] r1 hexObjectId_driver1
  have c: "listTrips hexObjectId storeOrder hexTrips driver1 None = (500, ServerError BSONError)"
    by blast
  from inst [where u = driver3 and xs = "[(lit ''64b7f0c2a1d3e4f5a6b70001'', trip4)]"
      and ys = "[]" and Maintenance = "[]" and Ad = "[]"]
  have d: "getStats hexObjectId hexTrips [] [] driver3
        = getStats hexObjectId [(lit ''64b7f0c2a1d3e4f5a6b70001'', trip4)] [] [] driver3"
    unfolding store by simp
  from h1 h2 r3 hexObjectId_driver3 a ra b r1 hexObjectId_driver1 c d show ?thesis by blast
qed

section \<open>Creating a trip\<close>

lemma attachDriver_frame:
  "attachDriver Driver p = Inr p' \<Longrightarrow> k \<noteq> ''driverName'' \<Longrightarrow> k \<noteq> ''driverNumber'' \<Longrightarrow> p' k = p k"
  by (auto simp: attachDriver_def split: if_splits option.splits)

lemma attachVehicle_frame:
  "attachVehicle Vehicle p = Inr p' \<Longrightarrow> k \<noteq> ''vehicleType'' \<Longrightarrow> p' k = p k"
  by (auto simp: attachVehicle_def split: if_splits option.splits)

lemma attachRefs_frame:
  assumes "attachRefs Driver Vehicle p = Inr p'"
    and "k \<noteq> ''driverName''" "k \<noteq> ''driverNumber''" "k \<noteq> ''vehicleType''"
  shows "p' k = p k"
proof -
  from assms(1) obtain q where "attachDriver Driver p = Inr q" "attachVehicle Vehicle q = Inr p'"
    by (auto simp: attachRefs_def split: sum.splits)
  with assms(2-) show ?thesis
    using attachDriver_frame [of Driver p q k] attachVehicle_frame [of Vehicle q p' k] by simp
qed

lemma newTrip_field: "k \<noteq> ''isDriverDeleted'' \<Longrightarrow> field (newTrip data) k = field data k"
  by (simp add: newTrip_def field_def)

lemma createDriverRefs_driverId:
  assumes "role u = lit ''driver''" and "createDriverRefs Driver Vehicle u data = Inr data'"
  shows "field data' ''driverId'' = Str (uid u)"
proof (cases "truthy (field (data(''driverId'' \<mapsto> Str (uid u))) ''vehicleId'')")
  case True
  with assms have "attachRefs Driver Vehicle (data(''driverId'' \<mapsto> Str (uid u))) = Inr data'"
    by (simp add: createDriverRefs_def Let_def field_upd)
  then have "data' ''driverId'' = (data(''driverId'' \<mapsto> Str (uid u))) ''driverId''"
    by (rule attachRefs_frame) simp_all
  then show ?thesis by (simp add: field_def)
next
  case False
  with assms show ?thesis by (auto simp: createDriverRefs_def Let_def field_upd)
qed

text \<open>
  Claim C10. A create request of a driver either fails with 400 and saves nothing, or
  saves a trip whose \<^verbatim>\<open>driverId\<close> is the caller's id, whatever the request body
  says; without a vehicle id it succeeds.
\<close>

theorem driver_create_own_id:
  assumes "role u = lit ''driver''"
  shows "((\<exists>trip. createTrip Driver Vehicle newId Trip u reqBody
                    = ((201, TripJson newId trip), save newId trip Trip)
              \<and> findById (save newId trip Trip) newId = Some trip
              \<and> field trip ''driverId'' = Str (uid u))
          \<or> (\<exists>err. createTrip Driver Vehicle newId Trip u reqBody = ((400, ErrorMessage err), Trip)))
       \<and> (\<not> truthy (field reqBody ''vehicleId'') \<longrightarrow>
            fst (fst (createTrip Driver Vehicle newId Trip u reqBody)) = 201)"
proof
  let ?data = "reqBody(''createdByRole'' \<mapsto> Str (role u), ''createdBy'' \<mapsto> Str (uid u))"
  have admin: "createAdminRefs Driver Vehicle u ?data = Inr ?data"
    using assms by (simp add: createAdminRefs_def)
  show "(\<exists>trip. createTrip Driver Vehicle newId Trip u reqBody
                    = ((201, TripJson newId trip), save newId trip Trip)
              \<and> findById (save newId trip Trip) newId = Some trip
              \<and> field trip ''driverId'' = Str (uid u))
          \<or> (\<exists>err. createTrip Driver Vehicle newId Trip u reqBody = ((400, ErrorMessage err), Trip))"
  proof (cases "createDriverRefs Driver Vehicle u ?data")
    case (Inl err)
    with admin show ?thesis by (simp add: createTrip_def Let_def)
  next
    case (Inr data2)
    with assms have "field (newTrip data2) ''driverId'' = Str (uid u)"
      by (simp add: newTrip_field createDriverRefs_driverId)
    with admin Inr show ?thesis by (simp add: createTrip_def Let_def findById_save)
  qed
  show "\<not> truthy (field reqBody ''vehicleId'') \<longrightarrow>
            fst (fst (createTrip Driver Vehicle newId Trip u reqBody)) = 201"
    using assms admin by (simp add: createTrip_def Let_def createDriverRefs_def field_upd)
qed

theorem driver_create_own_id_witness:
  "role driver1 = lit ''driver''
   \<and> \<not> truthy (field [''driverId'' \<mapsto> Str (lit ''d2'')] ''vehicleId'')
   \<and> fst (fst (createTrip sampleDrivers sampleVehicles (lit ''t9'') fleetTrips driver1
                  [''driverId'' \<mapsto> Str (lit ''d2'')])) = 201
   \<and> (\<exists>trip. findById (snd (createTrip sampleDrivers sampleVehicles (lit ''t9'') fleetTrips driver1
                  [''driverId'' \<mapsto> Str (lit ''d2'')])) (lit ''t9'') = Some trip
         \<and> field trip ''driverId'' = Str (lit ''d1''))"
proof -
  have h1: "role driver1 = lit ''driver''" by (simp add: sample_users)
  have h2: "\<not> truthy (field [''driverId'' \<mapsto> Str (lit ''d2'')] ''vehicleId'')" by (simp add: field_def)
  note inst = driver_create_own_id [OF h1, of sampleDrivers sampleVehicles "(lit ''t9'')" fleetTrips
      "[''driverId'' \<mapsto> Str (lit ''d2'')]"]
  from inst h2 have ok: "fst (fst (createTrip sampleDrivers sampleVehicles (lit ''t9'') fleetTrips driver1
                  [''driverId'' \<mapsto> Str (lit ''d2'')])) = 201"
    by blast
  with inst obtain trip where
    "createTrip sampleDrivers sampleVehicles (lit ''t9'') fleetTrips driver1 [''driverId'' \<mapsto> Str (lit ''d2'')]
       = ((201, TripJson (lit ''t9'') trip), save (lit ''t9'') trip fleetTrips)"
    "findById (save (lit ''t9'') trip fleetTrips) (lit ''t9'') = Some trip"
    "field trip ''driverId'' = Str (uid driver1)"
    by auto
  with h1 h2 ok show ?thesis by (simp add: sample_users)
qed

lemma driver1_refs:
  "attachRefs sampleDrivers sampleVehicles
     [''vehicleId'' \<mapsto> Str (lit ''v1''), ''createdByRole'' \<mapsto> Str (lit ''driver''),
      ''createdBy'' \<mapsto> Str (lit ''d1''), ''driverId'' \<mapsto> Str (lit ''d1'')]
   = Inr [''vehicleId'' \<mapsto> Str (lit ''v1''), ''createdByRole'' \<mapsto> Str (lit ''driver''),
          ''createdBy'' \<mapsto> Str (lit ''d1''), ''driverId'' \<mapsto> Str (lit ''d1''),
          ''driverName'' \<mapsto> Str (lit ''Asha''), ''driverNumber'' \<mapsto> Str (lit ''9000000001''),
          ''vehicleType'' \<mapsto> Str (lit ''Sedan'')]"
  by (simp add: attachRefs_def attachDriver_def attachVehicle_def lookupRef_def field_def
      sampleDrivers_def sampleVehicles_def findById_def)

lemma driver1_create:
  "createTrip sampleDrivers sampleVehicles (lit ''t9'') fleetTrips driver1 [''vehicleId'' \<mapsto> Str (lit ''v1'')]
   = ((201, TripJson (lit ''t9'')
        [''vehicleId'' \<mapsto> Str (lit ''v1''), ''createdByRole'' \<mapsto> Str (lit ''driver''),
         ''createdBy'' \<mapsto> Str (lit ''d1''), ''driverId'' \<mapsto> Str (lit ''d1''),
         ''driverName'' \<mapsto> Str (lit ''Asha''), ''driverNumber'' \<mapsto> Str (lit ''9000000001''),
         ''vehicleType'' \<mapsto> Str (lit ''Sedan''), ''isDriverDeleted'' \<mapsto> Bool False]),
      save (lit ''t9'')
        [''vehicleId'' \<mapsto> Str (lit ''v1''), ''createdByRole'' \<mapsto> Str (lit ''driver''),
         ''createdBy'' \<mapsto> Str (lit ''d1''), ''driverId'' \<mapsto> Str (lit ''d1''),
         ''driverName'' \<mapsto> Str (lit ''Asha''), ''driverNumber'' \<mapsto> Str (lit ''9000000001''),
         ''vehicleType'' \<mapsto> Str (lit ''Sedan''), ''isDriverDeleted'' \<mapsto> Bool False]
        fleetTrips)"
proof -
  have v: "field [''vehicleId'' \<mapsto> Str (lit ''v1''), ''createdByRole'' \<mapsto> Str (lit ''driver''),
      ''createdBy'' \<mapsto> Str (lit ''d1''), ''driverId'' \<mapsto> Str (lit ''d1'')] ''vehicleId'' = Str (lit ''v1'')"
    "field [''vehicleId'' \<mapsto> Str (lit ''v1''), ''createdByRole'' \<mapsto> Str (lit ''driver''),
      ''createdBy'' \<mapsto> Str (lit ''d1''), ''driverId'' \<mapsto> Str (lit ''d1'')] ''driverId'' = Str (lit ''d1'')"
    by (simp_all add: field_def)
  show ?thesis
    by (simp add: createTrip_def createAdminRefs_def createDriverRefs_def Let_def sample_users
        v driver1_refs newTrip_def)
qed

text \<open>
  Claim C9 fails on the first revision of the handler. Driver \<open>d1\<close> (Asha) creates a
  trip with the vehicle \<open>v1\<close>: the resolver is called with the driver's id in the
  data, and the saved trip carries the driver's own \<^verbatim>\<open>driverName\<close> and
  \<^verbatim>\<open>driverNumber\<close> besides the \<^verbatim>\<open>vehicleType\<close>.
\<close>

theorem driver_create_stamps_own_snapshot:
  "fst (fst (createTrip sampleDrivers sampleVehicles (lit ''t9'') fleetTrips driver1
               [''vehicleId'' \<mapsto> Str (lit ''v1'')])) = 201
   \<and> (case findById (snd (createTrip sampleDrivers sampleVehicles (lit ''t9'') fleetTrips driver1
                             [''vehicleId'' \<mapsto> Str (lit ''v1'')])) (lit ''t9'') of
         None \<Rightarrow> False
       | Some trip \<Rightarrow> field trip ''driverName'' = Str (lit ''Asha'')
                    \<and> field trip ''driverNumber'' = Str (lit ''9000000001'')
                    \<and> field trip ''vehicleType'' = Str (lit ''Sedan''))"
  by (simp add: driver1_create findById_save field_def)

text \<open>
  The second revision of the handler does what the claim says: after a driver's create
  with a vehicle id the trip has neither \<^verbatim>\<open>driverName\<close> nor \<^verbatim>\<open>driverNumber\<close>.
\<close>

lemma rev2_no_driver_snapshot:
  assumes "role u = lit ''driver''" and "truthy (field reqBody ''vehicleId'')"
    and "createTripRev2 Driver Vehicle newId Trip u reqBody = ((201, TripJson newId trip), Trip')"
  shows "trip ''driverName'' = None \<and> trip ''driverNumber'' = None"
proof -
  let ?data = "reqBody(''createdByRole'' \<mapsto> Str (role u), ''createdBy'' \<mapsto> Str (uid u))"
  have admin: "createAdminRefs Driver Vehicle u ?data = Inr ?data"
    using assms(1) by (simp add: createAdminRefs_def)
  from assms(3) admin obtain data2 where
    d2: "createDriverRefsRev2 Driver Vehicle u ?data = Inr data2" and t: "trip = newTrip data2"
    by (auto simp: createTripRev2_def Let_def split: sum.splits)
  from d2 assms(1,2) obtain data' where
    "data2 = data'(''driverName'' := None, ''driverNumber'' := None)"
    by (auto simp: createDriverRefsRev2_def Let_def field_upd split: sum.splits)
  with t show ?thesis by (simp add: newTrip_def)
qed

section \<open>Updating a trip\<close>

lemma field_assign: "field (t ++ m) k = (case m k of None \<Rightarrow> field t k | Some v \<Rightarrow> v)"
  by (simp add: field_def map_add_def split: option.splits)

lemma driverId_not_forbidden: "''driverId'' \<notin> driverForbidden"
  by (simp add: driverForbidden_def)

lemma driver2_refs:
  "attachRefs sampleDrivers sampleVehicles [''driverId'' \<mapsto> Str (lit ''d2'')]
     = Inr [''driverId'' \<mapsto> Str (lit ''d2''), ''driverName'' \<mapsto> Str (lit ''Bala''),
            ''driverNumber'' \<mapsto> Str (lit ''9000000002'')]"
  by (simp add: attachRefs_def attachDriver_def attachVehicle_def lookupRef_def field_def
      sampleDrivers_def findById_def)

lemma driver1_update:
  "updateTrip sampleText sampleDrivers sampleVehicles fleetTrips driver1 (lit ''t1'')
     [''driverId'' \<mapsto> Str (lit ''d2'')]
   = ((200, TripJson (lit ''t1'')
         (trip1 ++ [''driverId'' \<mapsto> Str (lit ''d2''), ''driverName'' \<mapsto> Str (lit ''Bala''),
                    ''driverNumber'' \<mapsto> Str (lit ''9000000002'')] |` (- driverForbidden))),
      save (lit ''t1'')
         (trip1 ++ [''driverId'' \<mapsto> Str (lit ''d2''), ''driverName'' \<mapsto> Str (lit ''Bala''),
                    ''driverNumber'' \<mapsto> Str (lit ''9000000002'')] |` (- driverForbidden))
         fleetTrips)"
proof -
  have v: "field [''driverId'' \<mapsto> Str (lit ''d2'')] ''driverId'' = Str (lit ''d2'')"
    by (simp add: field_def)
  show ?thesis
    by (simp add: updateTrip_def notOwner_def fleet_t1 trip_owners sample_users Let_def v
        driver2_refs)
qed

text \<open>
  What a driver's update of an own trip keeps: the lifecycle and authorship fields
  stay as they are, and so does \<^verbatim>\<open>driverId\<close> when the body has none.
\<close>

lemma driver_update_fields:
  assumes "role u = lit ''driver''"
    and "findById Trip tid = Some trip"
    and "updateTrip txt Driver Vehicle Trip u tid reqBody = ((200, TripJson tid trip'), Trip')"
  shows "(\<forall>k \<in> driverForbidden. trip' k = trip k)
       \<and> (reqBody ''driverId'' = None \<longrightarrow> trip' ''driverId'' = trip ''driverId'')"
proof -
  let ?refs = "if truthy (field reqBody ''driverId'') \<or> truthy (field reqBody ''vehicleId'')
               then attachRefs Driver Vehicle reqBody else Inr reqBody"
  from assms obtain updates0 where
    refs: "?refs = Inr updates0" and t: "trip' = trip ++ updates0 |` (- driverForbidden)"
    by (auto simp: updateTrip_def Let_def split: if_splits sum.splits)
  have "updates0 ''driverId'' = reqBody ''driverId''"
    using refs attachRefs_frame [of Driver Vehicle reqBody updates0 "''driverId''"]
    by (auto split: if_splits)
  with t show ?thesis
    by (auto simp: map_add_def restrict_map_def driverId_not_forbidden)
qed

text \<open>
  Claim C2 fails on the code. Driver \<open>d1\<close> updates the own trip \<open>t1\<close> with the body
  \<^verbatim>\<open>{"driverId": "d2"}\<close>, where \<open>d2\<close> is another driver: the handler removes the
  lifecycle and authorship fields from a driver's updates but not \<^verbatim>\<open>driverId\<close>, and
  the saved trip belongs to \<open>d2\<close>.
\<close>

theorem driver_update_reassigns_trip:
  "field trip1 ''driverId'' = Str (lit ''d1'')
   \<and> fst (fst (updateTrip sampleText sampleDrivers sampleVehicles fleetTrips driver1 (lit ''t1'')
               [''driverId'' \<mapsto> Str (lit ''d2'')])) = 200
   \<and> (case findById (snd (updateTrip sampleText sampleDrivers sampleVehicles fleetTrips driver1 (lit ''t1'')
                             [''driverId'' \<mapsto> Str (lit ''d2'')])) (lit ''t1'') of
         None \<Rightarrow> False
       | Some trip \<Rightarrow> field trip ''driverId'' = Str (lit ''d2''))"
proof -
  have a: "field trip1 ''driverId'' = Str (lit ''d1'')" by (simp add: field_def trip1_def)
  have b: "field (trip1 ++ [''driverId'' \<mapsto> Str (lit ''d2''), ''driverName'' \<mapsto> Str (lit ''Bala''),
                    ''driverNumber'' \<mapsto> Str (lit ''9000000002'')] |` (- driverForbidden)) ''driverId''
           = Str (lit ''d2'')"
    by (subst field_assign) (simp add: restrict_map_def driverId_not_forbidden)
  show ?thesis
    by (simp add: a driver1_update findById_save field_upd driverForbidden_def)
qed

end
